theory Spec2Isabelle
  imports Main
begin

section \<open>The session coordination engine of guess-what\<close>

text \<open>
  The socket handlers of \<^verbatim>\<open>handlers/socket-handlers.js\<close> and the schema of
  \<^verbatim>\<open>models/GameSession.js\<close>, as functions on an explicit world: the session
  collection, the map of active timers with the timeouts still scheduled, the
  rooms of the transport and the notifications emitted so far.

  Every handler runs to completion before the next one starts (one handler is one
  step). The clock is a parameter \<open>now\<close> of each step, in milliseconds; every
  \<^verbatim>\<open>new Date()\<close> and \<^verbatim>\<open>Date.now()\<close> of the step reads it.
\<close>

subsection \<open>Strings\<close>

text \<open>
  A JavaScript string is a list of code units; the model covers the code units
  below 256. \<^verbatim>\<open>trim\<close> removes white space and line terminators at both ends,
  \<^verbatim>\<open>toLowerCase\<close> maps A-Z and the upper-case letters of Latin-1.
\<close>

definition isWhiteSpace :: "char \<Rightarrow> bool" where
  "isWhiteSpace c = ((of_char c :: nat) \<in> {9, 10, 11, 12, 13, 32, 160})"

definition trim :: "string \<Rightarrow> string" where
  "trim s = rev (dropWhile isWhiteSpace (rev (dropWhile isWhiteSpace s)))"

definition lowerChar :: "char \<Rightarrow> char" where
  "lowerChar c =
     (let n = (of_char c :: nat)
      in if (65 \<le> n \<and> n \<le> 90) \<or> (192 \<le> n \<and> n \<le> 222 \<and> n \<noteq> 215)
         then char_of (n + 32) else c)"

definition toLowerCase :: "string \<Rightarrow> string" where
  "toLowerCase s = map lowerChar s"

text \<open>\<^verbatim>\<open>!x\<close> on a nullable string: null and the empty string are falsy.\<close>

definition truthy :: "string option \<Rightarrow> bool" where
  "truthy x = (case x of None \<Rightarrow> False | Some s \<Rightarrow> s \<noteq> [])"

subsection \<open>The schema\<close>

datatype game_status = Waiting | InProgress | Ended

record player =
  socketId :: string
  username :: string
  score :: int
  attempts :: int
  isConnected :: bool
  lastGameMasterTime :: "int option"
  lastActivity :: int

record session =
  sessionId :: string
  requiresGameMaster :: bool
  players :: "player list"
  gameMasterId :: "string option"
  currentQuestion :: "string option"
  currentAnswer :: "string option"
  status :: game_status
  winner :: "string option"
  gameStartTime :: "int option"
  createdAt :: int
  updatedAt :: int

subsection \<open>Notifications\<close>

text \<open>
  \<^verbatim>\<open>socket.emit\<close> addresses the calling connection, \<^verbatim>\<open>io.to(room).emit\<close> a room.
  A message built from a template keeps the template's name and its parameters.
\<close>

datatype target = ToSocket string | ToRoom string

datatype end_reason = Winner | Timeout | AllAttemptsUsed

datatype message =
    Text string
  | JoinedGame string
  | Reconnected string
  | JoinedWaiting string
  | MadeGuess string int
  | SubmittedGuess string int
  | WonRound string
  | NowGameMaster string
  | Disconnected string

datatype event =
    Error string
  | SessionCreated string string bool
  | SessionJoined string string bool "player list" game_status "string option"
  | SessionReconnected string string bool "player list" game_status "string option"
  | PlayersUpdate "player list" "string option"
  | NewGameMaster "string option" string "player list"
  | QuestionSet string "string option" "string option"
  | PlayerNotification string message
  | GameMasterNotification string message
  | GameStarted "string option" nat
  | GuessResult bool int
  | GameEnded end_reason "string option" "string option" "player list"
  | ChatSystem message
  | ChatUser string string
  | NextRoundStarting "string option" "string option"

subsection \<open>The world\<close>

text \<open>
  \<open>store\<close> is the collection, in insertion order. \<open>activeTimers\<close> is the map
  of the same name; \<open>pendingTimers\<close> holds the timeouts that are scheduled and
  neither fired nor cleared: handle, delay in milliseconds, and the session id
  the callback closed over.
\<close>

record world =
  store :: "session list"
  activeTimers :: "string \<Rightarrow> nat option"
  pendingTimers :: "(nat \<times> nat \<times> string) list"
  nextTimerId :: nat
  rooms :: "(string \<times> string) list"
  outbox :: "(target \<times> event) list"

definition initialWorld :: world where
  "initialWorld = \<lparr>store = [], activeTimers = (\<lambda>_. None), pendingTimers = [],
     nextTimerId = 0, rooms = [], outbox = []\<rparr>"

definition emit :: "target \<Rightarrow> event \<Rightarrow> world \<Rightarrow> world" where
  "emit t e w = w\<lparr>outbox := outbox w @ [(t, e)]\<rparr>"

definition joinRoom :: "string \<Rightarrow> string \<Rightarrow> world \<Rightarrow> world" where
  "joinRoom room sock w = w\<lparr>rooms := rooms w @ [(room, sock)]\<rparr>"

subsection \<open>The model of the collection\<close>

text \<open>\<^verbatim>\<open>findBySessionId\<close>: the first document whose id is the normalised argument.\<close>

definition findBySessionId :: "string \<Rightarrow> world \<Rightarrow> session option" where
  "findBySessionId sid w = find (\<lambda>s. sessionId s = trim (toLowerCase sid)) (store w)"

text \<open>
  The validators of the schema and the second \<^verbatim>\<open>pre("save")\<close> hook. A document
  that fails them is not written and \<^verbatim>\<open>save\<close> throws.
\<close>

definition validPlayer :: "player \<Rightarrow> bool" where
  "validPlayer p =
     (socketId p \<noteq> [] \<and> username p \<noteq> [] \<and> length (username p) \<le> 20
      \<and> 0 \<le> score p \<and> 0 \<le> attempts p \<and> attempts p \<le> 3)"

definition validSession :: "session \<Rightarrow> bool" where
  "validSession s =
     (3 \<le> length (sessionId s) \<and> length (sessionId s) \<le> 20
      \<and> list_all validPlayer (players s)
      \<and> \<not> (players s = [] \<and> status s \<noteq> Waiting))"

fun replaceDoc :: "session \<Rightarrow> session list \<Rightarrow> session list" where
  "replaceDoc s [] = [s]"
| "replaceDoc s (d # ds) =
     (if sessionId d = sessionId s then s # ds else d # replaceDoc s ds)"

text \<open>
  \<^verbatim>\<open>save\<close> writes the whole document under its id, with \<open>updatedAt\<close> set by
  the first \<^verbatim>\<open>pre("save")\<close> hook; the result is the document as saved and
  the new world, or \<open>None\<close> when it throws.
\<close>

definition save :: "int \<Rightarrow> session \<Rightarrow> world \<Rightarrow> (session \<times> world) option" where
  "save now s w =
     (if validSession s
      then (let s' = s\<lparr>updatedAt := now\<rparr>
            in Some (s', w\<lparr>store := replaceDoc s' (store w)\<rparr>))
      else None)"

subsection \<open>Timers\<close>

text \<open>
  \<^verbatim>\<open>clearGameTimer\<close>: when the map has an entry for the id, the timeout is
  cleared and the entry deleted. \<open>setGameTimer\<close> is the \<^verbatim>\<open>setTimeout\<close> of
  \<^verbatim>\<open>handleStartGame\<close> followed by \<^verbatim>\<open>activeTimers.set\<close>.
\<close>

definition clearGameTimer :: "string \<Rightarrow> world \<Rightarrow> world" where
  "clearGameTimer sid w =
     (case activeTimers w sid of
        None \<Rightarrow> w
      | Some h \<Rightarrow> w\<lparr>pendingTimers := filter (\<lambda>t. fst t \<noteq> h) (pendingTimers w),
                    activeTimers := (activeTimers w)(sid := None)\<rparr>)"

definition setGameTimer :: "string \<Rightarrow> nat \<Rightarrow> world \<Rightarrow> world" where
  "setGameTimer sid delay w =
     (let h = nextTimerId w
      in w\<lparr>pendingTimers := pendingTimers w @ [(h, delay, sid)],
           activeTimers := (activeTimers w)(sid \<mapsto> h),
           nextTimerId := Suc h\<rparr>)"

subsection \<open>Helpers on player lists\<close>

fun findIndex :: "('a \<Rightarrow> bool) \<Rightarrow> 'a list \<Rightarrow> nat option" where
  "findIndex P [] = None"
| "findIndex P (x # xs) = (if P x then Some 0 else map_option Suc (findIndex P xs))"

text \<open>
  The players that are connected, each with its position in \<open>players\<close>: the
  elements of the filtered array are the documents of the session themselves, so
  a write to one of them is a write at that position.
\<close>

definition connectedPlayers :: "session \<Rightarrow> (nat \<times> player) list" where
  "connectedPlayers s = filter (\<lambda>ip. isConnected (snd ip)) (enumerate 0 (players s))"

text \<open>The comparator both selectors pass to \<^verbatim>\<open>sort\<close>.\<close>

definition compareGM :: "player \<Rightarrow> player \<Rightarrow> int" where
  "compareGM a b =
     (case lastGameMasterTime a of
        None \<Rightarrow> - 1
      | Some ta \<Rightarrow> (case lastGameMasterTime b of None \<Rightarrow> 1 | Some tb \<Rightarrow> ta - tb))"

text \<open>
  \<^verbatim>\<open>Array.prototype.sort\<close> as a stable insertion sort: an element goes before
  the first one it does not compare greater than. The comparator answers \<open>-1\<close>
  for two players that both have no time, in either order; on such a pair the
  language leaves the order to the engine, and the model keeps the order of the
  array. The theorems below only use that a player without a time comes before
  every player with one, and that times ascend.
\<close>

fun insertBy :: "('a \<Rightarrow> 'a \<Rightarrow> int) \<Rightarrow> 'a \<Rightarrow> 'a list \<Rightarrow> 'a list" where
  "insertBy cmp x [] = [x]"
| "insertBy cmp x (y # ys) = (if cmp x y \<le> 0 then x # y # ys else y # insertBy cmp x ys)"

definition sortBy :: "('a \<Rightarrow> 'a \<Rightarrow> int) \<Rightarrow> 'a list \<Rightarrow> 'a list" where
  "sortBy cmp xs = foldr (insertBy cmp) xs []"

definition sortedConnected :: "session \<Rightarrow> (nat \<times> player) list" where
  "sortedConnected s = sortBy (\<lambda>a b. compareGM (snd a) (snd b)) (connectedPlayers s)"

definition allPlayersExhausted :: "session \<Rightarrow> bool" where
  "allPlayersExhausted s =
     (let activePlayers =
            filter (\<lambda>p. isConnected p \<and> Some (socketId p) \<noteq> gameMasterId s) (players s)
      in 0 < length activePlayers \<and> list_all (\<lambda>p. 3 \<le> attempts p) activePlayers)"

subsection \<open>The game-master selectors\<close>

text \<open>
  \<^verbatim>\<open>assignGameMaster\<close> works on the document the caller holds and does not
  save; the result is that document and the world with the notifications.
\<close>

definition assignGameMaster :: "session \<Rightarrow> bool \<Rightarrow> world \<Rightarrow> session \<times> world" where
  "assignGameMaster s notifyClients w =
     (if connectedPlayers s = [] then (s\<lparr>requiresGameMaster := True\<rparr>, w)
      else
        let currentGameMaster = find (\<lambda>p. Some (socketId p) = gameMasterId s) (players s);
            isGameMasterValid =
              (case currentGameMaster of None \<Rightarrow> False | Some p \<Rightarrow> isConnected p)
        in if \<not> isGameMasterValid then
             (case sortedConnected s of
                [] \<Rightarrow> (s, w)
              | first # _ \<Rightarrow>
                  let s1 = s\<lparr>gameMasterId := Some (socketId (snd first)),
                             requiresGameMaster := False\<rparr>
                  in if notifyClients then
                       (s1, emit (ToRoom (sessionId s1)) (PlayersUpdate (players s1) (gameMasterId s1))
                             (emit (ToRoom (sessionId s1))
                                (NewGameMaster (gameMasterId s1) (username (snd first)) (players s1)) w))
                     else (s1, w))
           else (s, w))"

text \<open>
  The choice of \<^verbatim>\<open>rotateGameMaster\<close>: the first of the sorted connected
  players, or, when the current game master is in \<open>players\<close> and connected,
  the first of the sorted ones with another socket id, if there is one.
\<close>

definition selectNext :: "session \<Rightarrow> (nat \<times> player) option" where
  "selectNext s =
     (let currentMasterIndex =
            findIndex (\<lambda>p. Some (socketId p) = gameMasterId s) (players s);
          sortedConnectedPlayers = sortedConnected s
      in (case sortedConnectedPlayers of
            [] \<Rightarrow> None
          | first # _ \<Rightarrow>
              if (case currentMasterIndex of
                    None \<Rightarrow> False
                  | Some i \<Rightarrow> isConnected (players s ! i))
              then (case filter (\<lambda>ip. Some (socketId (snd ip)) \<noteq> gameMasterId s)
                           sortedConnectedPlayers of
                      [] \<Rightarrow> Some first
                    | other # _ \<Rightarrow> Some other)
              else Some first))"

text \<open>
  \<^verbatim>\<open>rotateGameMaster\<close> loads the document again from the collection, writes
  the new game master and the time into it and saves it. An exception inside is
  caught and logged there, so the caller always continues.
\<close>

definition rotateGameMaster :: "string \<Rightarrow> int \<Rightarrow> world \<Rightarrow> world" where
  "rotateGameMaster sid now w =
     (case findBySessionId sid w of
        None \<Rightarrow> w
      | Some s \<Rightarrow>
          if connectedPlayers s = [] then
            (case save now (s\<lparr>requiresGameMaster := True\<rparr>) w of
               None \<Rightarrow> w
             | Some (_, w1) \<Rightarrow> w1)
          else
            (case selectNext s of
               None \<Rightarrow> w
             | Some nextGameMaster \<Rightarrow>
                 let s1 = s\<lparr>gameMasterId := Some (socketId (snd nextGameMaster)),
                            players := (players s)[fst nextGameMaster :=
                               (snd nextGameMaster)\<lparr>lastGameMasterTime := Some now\<rparr>],
                            status := Ended,
                            requiresGameMaster := False\<rparr>
                 in (case save now s1 w of
                       None \<Rightarrow> w
                     | Some (s2, w1) \<Rightarrow>
                         emit (ToRoom (socketId (snd nextGameMaster)))
                           (GameMasterNotification ''new_game_master''
                              (Text ''You are now the Game Master! Click 'Start Next Round' to begin.''))
                           (emit (ToRoom sid) (ChatSystem (NowGameMaster (username (snd nextGameMaster))))
                              (emit (ToRoom sid) (PlayersUpdate (players s2) (gameMasterId s2))
                                 (emit (ToRoom sid)
                                    (NewGameMaster (gameMasterId s2)
                                       (username (snd nextGameMaster)) (players s2)) w1))))))"

subsection \<open>The handlers\<close>

definition newPlayer :: "string \<Rightarrow> string \<Rightarrow> int option \<Rightarrow> int \<Rightarrow> player" where
  "newPlayer sock name gmTime now =
     \<lparr>socketId = sock, username = name, score = 0, attempts = 0, isConnected = True,
      lastGameMasterTime = gmTime, lastActivity = now\<rparr>"

text \<open>
  \<^verbatim>\<open>handleCreateSession\<close>. The fields the constructor is not given take the
  defaults of the schema.
\<close>

definition handleCreateSession :: "string \<Rightarrow> string \<Rightarrow> string \<Rightarrow> int \<Rightarrow> world \<Rightarrow> world" where
  "handleCreateSession sock usernameArg sessionIdArg now w =
     (if trim usernameArg = [] \<or> trim sessionIdArg = [] then
        emit (ToSocket sock) (Error ''Username and session ID are required'') w
      else
        let trimmedSessionId = toLowerCase (trim sessionIdArg);
            trimmedUsername = trim usernameArg
        in (case findBySessionId trimmedSessionId w of
              Some _ \<Rightarrow>
                emit (ToSocket sock)
                  (Error ''Session ID already exists. Please choose a different one.'') w
            | None \<Rightarrow>
                let s = \<lparr>sessionId = trimmedSessionId, requiresGameMaster = False,
                         players = [newPlayer sock trimmedUsername (Some now) now],
                         gameMasterId = Some sock, currentQuestion = None,
                         currentAnswer = None, status = Waiting, winner = None,
                         gameStartTime = None, createdAt = now, updatedAt = now\<rparr>
                in (case save now s w of
                      None \<Rightarrow> emit (ToSocket sock) (Error ''Failed to create session'') w
                    | Some (s1, w1) \<Rightarrow>
                        emit (ToRoom (sessionId s1)) (PlayersUpdate (players s1) (gameMasterId s1))
                          (emit (ToSocket sock) (SessionCreated (sessionId s1) trimmedUsername True)
                             (joinRoom (sessionId s1) sock w1)))))"

text \<open>
  The part of \<^verbatim>\<open>handleJoinSession\<close> after the two branches have changed the
  player list: reassignment, save, and the notifications.
\<close>

definition joinFinish :: "string \<Rightarrow> string \<Rightarrow> bool \<Rightarrow> int \<Rightarrow> session \<Rightarrow> world \<Rightarrow> world" where
  "joinFinish sock trimmedUsername wasReconnected now s w =
     (case assignGameMaster s True w of
        (s1, w1) \<Rightarrow>
          (case save now s1 w1 of
             None \<Rightarrow> emit (ToSocket sock) (Error ''Failed to join session'') w1
           | Some (s2, w2) \<Rightarrow>
               let isGameMaster = (gameMasterId s2 = Some sock);
                   question = (if status s2 = InProgress then currentQuestion s2 else None);
                   w3 = emit (ToSocket sock)
                          ((if wasReconnected then SessionReconnected else SessionJoined)
                             (sessionId s2) trimmedUsername isGameMaster (players s2)
                             (status s2) question)
                          (joinRoom (sessionId s2) sock w2);
                   w4 = emit (ToRoom (sessionId s2)) (PlayersUpdate (players s2) (gameMasterId s2)) w3;
                   w5 = emit (ToRoom (sessionId s2))
                          (ChatSystem (if wasReconnected then Reconnected trimmedUsername
                                       else JoinedGame trimmedUsername)) w4
               in (case gameMasterId s2 of
                     None \<Rightarrow> w5
                   | Some g \<Rightarrow>
                       if g \<noteq> [] \<and> status s2 = Waiting then
                         emit (ToRoom g)
                           (GameMasterNotification ''player_joined'' (JoinedWaiting trimmedUsername)) w5
                       else w5)))"

definition handleJoinSession :: "string \<Rightarrow> string \<Rightarrow> string \<Rightarrow> int \<Rightarrow> world \<Rightarrow> world" where
  "handleJoinSession sock usernameArg sessionIdArg now w =
     (if trim usernameArg = [] \<or> trim sessionIdArg = [] then
        emit (ToSocket sock) (Error ''Username and session ID are required'') w
      else
        let trimmedUsername = trim usernameArg;
            trimmedSessionId = toLowerCase (trim sessionIdArg)
        in (case findBySessionId trimmedSessionId w of
              None \<Rightarrow> emit (ToSocket sock) (Error ''Session not found'') w
            | Some s \<Rightarrow>
                (case findIndex (\<lambda>p. username p = trimmedUsername) (players s) of
                   Some i \<Rightarrow>
                     joinFinish sock trimmedUsername True now
                       (s\<lparr>players := (players s)[i :=
                            (players s ! i)\<lparr>socketId := sock, isConnected := True,
                                            lastActivity := now\<rparr>]\<rparr>) w
                 | None \<Rightarrow>
                     if status s = InProgress then
                       emit (ToSocket sock)
                         (Error ''Game is in progress. Please wait for the next round.'') w
                     else
                       joinFinish sock trimmedUsername False now
                         (s\<lparr>players := players s @ [newPlayer sock trimmedUsername None now]\<rparr>) w)))"

definition handleSetQuestion ::
  "string \<Rightarrow> string \<Rightarrow> string \<Rightarrow> string \<Rightarrow> int \<Rightarrow> world \<Rightarrow> world" where
  "handleSetQuestion sock sid question answer now w =
     (if trim question = [] \<or> trim answer = [] then
        emit (ToSocket sock) (Error ''Question and answer are required'') w
      else
        (case findBySessionId sid w of
           None \<Rightarrow> emit (ToSocket sock) (Error ''Session not found'') w
         | Some s \<Rightarrow>
             if gameMasterId s \<noteq> Some sock then
               emit (ToSocket sock) (Error ''Only game master can set questions'') w
             else if status s \<noteq> Waiting then
               emit (ToSocket sock) (Error ''Cannot set question while game is in progress'') w
             else
               (case save now (s\<lparr>currentQuestion := Some (trim question),
                                 currentAnswer := Some (toLowerCase (trim answer))\<rparr>) w of
                  None \<Rightarrow> emit (ToSocket sock) (Error ''Failed to set question'') w
                | Some (s1, w1) \<Rightarrow>
                    emit (ToRoom sock)
                      (GameMasterNotification ''question_set''
                         (Text ''Question set! Players are waiting for you to start the game.''))
                      (emit (ToRoom sid)
                         (PlayerNotification ''question_ready''
                            (Text ''Game Master has set a question! Waiting for game to start...''))
                         (emit (ToSocket sock)
                            (QuestionSet ''Question set successfully! Ready to start.''
                               (currentQuestion s1) (currentAnswer s1)) w1)))))"

text \<open>
  The callback \<^verbatim>\<open>handleStartGame\<close> hands to \<^verbatim>\<open>setTimeout\<close>, closed over the
  session id of the command.
\<close>

definition timerCallback :: "string \<Rightarrow> int \<Rightarrow> world \<Rightarrow> world" where
  "timerCallback sid now w =
     (case findBySessionId sid w of
        None \<Rightarrow> w
      | Some updatedSession \<Rightarrow>
          if status updatedSession = InProgress then
            (case save now (updatedSession\<lparr>status := Ended\<rparr>) w of
               None \<Rightarrow> w
             | Some (s1, w1) \<Rightarrow>
                 clearGameTimer sid
                   (emit (ToRoom sid) (ChatSystem (Text ''Time's up! No one guessed correctly.''))
                      (rotateGameMaster sid now
                         (emit (ToRoom sid)
                            (GameEnded Timeout None (currentAnswer s1) (players s1)) w1))))
          else w)"

text \<open>
  A scheduled timeout fires: it leaves the scheduled ones and its callback runs.
  A handle that is not scheduled (cleared, or already fired) never fires.
\<close>

definition fireTimer :: "nat \<Rightarrow> int \<Rightarrow> world \<Rightarrow> world" where
  "fireTimer h now w =
     (case find (\<lambda>t. fst t = h) (pendingTimers w) of
        None \<Rightarrow> w
      | Some t \<Rightarrow>
          timerCallback (snd (snd t)) now
            (w\<lparr>pendingTimers := filter (\<lambda>t. fst t \<noteq> h) (pendingTimers w)\<rparr>))"

definition handleStartGame :: "string \<Rightarrow> string \<Rightarrow> int \<Rightarrow> world \<Rightarrow> world" where
  "handleStartGame sock sid now w =
     (case findBySessionId sid w of
        None \<Rightarrow> emit (ToSocket sock) (Error ''Session not found'') w
      | Some s \<Rightarrow>
          if gameMasterId s \<noteq> Some sock then
            emit (ToSocket sock) (Error ''Only game master can start the game'') w
          else if length (filter isConnected (players s)) < 2 then
            emit (ToSocket sock) (Error ''Need at least 2 connected players to start the game'') w
          else if \<not> truthy (currentQuestion s) \<or> \<not> truthy (currentAnswer s) then
            emit (ToSocket sock) (Error ''Please set a question and answer first'') w
          else if status s = InProgress then
            emit (ToSocket sock) (Error ''Game is already in progress'') w
          else
            (case save now (s\<lparr>players := map (\<lambda>p. p\<lparr>attempts := 0\<rparr>) (players s),
                              status := InProgress, gameStartTime := Some now,
                              winner := None\<rparr>) w of
               None \<Rightarrow> emit (ToSocket sock) (Error ''Failed to start game'') w
             | Some (s1, w1) \<Rightarrow>
                 setGameTimer sid 60000
                   (emit (ToRoom sock)
                      (GameMasterNotification ''game_started''
                         (Text ''Game started! Players are now guessing...''))
                      (emit (ToRoom sid) (GameStarted (currentQuestion s1) 60)
                         (clearGameTimer sid w1)))))"

definition handleSubmitGuess :: "string \<Rightarrow> string \<Rightarrow> string \<Rightarrow> int \<Rightarrow> world \<Rightarrow> world" where
  "handleSubmitGuess sock sid guess now w =
     (if trim guess = [] then emit (ToSocket sock) (Error ''Please enter a guess'') w
      else
        (case findBySessionId sid w of
           None \<Rightarrow> emit (ToSocket sock) (Error ''Session not found'') w
         | Some s \<Rightarrow>
             if status s \<noteq> InProgress then
               emit (ToSocket sock) (Error ''Game is not in progress'') w
             else
               (case findIndex (\<lambda>p. socketId p = sock) (players s) of
                  None \<Rightarrow> emit (ToSocket sock) (Error ''Player not found'') w
                | Some i \<Rightarrow>
                    if Some sock = gameMasterId s then
                      emit (ToSocket sock) (Error ''Game master cannot submit guesses'') w
                    else if 3 \<le> attempts (players s ! i) then
                      emit (ToSocket sock) (Error ''You have used all your attempts'') w
                    else
                      let player1 = (players s ! i)\<lparr>attempts := attempts (players s ! i) + 1\<rparr>;
                          normalizedGuess = toLowerCase (trim guess);
                          isCorrect = (Some normalizedGuess = currentAnswer s)
                      in if isCorrect then
                           let player2 = player1\<lparr>score := score player1 + 10\<rparr>;
                               s1 = s\<lparr>players := (players s)[i := player2], status := Ended,
                                      winner := Some (username player2)\<rparr>;
                               w1 = clearGameTimer sid w
                           in (case save now s1 w1 of
                                 None \<Rightarrow> emit (ToSocket sock) (Error ''Failed to submit guess'') w1
                               | Some (s2, w2) \<Rightarrow>
                                   emit (ToRoom sid) (ChatSystem (WonRound (username player2)))
                                     (rotateGameMaster sid now
                                        (emit (ToRoom sid)
                                           (GameEnded Winner (Some (username player2))
                                              (currentAnswer s2) (players s2)) w2)))
                         else
                           (case save now (s\<lparr>players := (players s)[i := player1]\<rparr>) w of
                              None \<Rightarrow> emit (ToSocket sock) (Error ''Failed to submit guess'') w
                            | Some (s2, w2) \<Rightarrow>
                                let w3 = emit (ToSocket sock)
                                           (GuessResult False (3 - attempts player1)) w2;
                                    w4 = emit (ToRoom sid)
                                           (ChatSystem (MadeGuess (username player1) (attempts player1))) w3;
                                    w5 = (case gameMasterId s2 of
                                            None \<Rightarrow> w4
                                          | Some g \<Rightarrow>
                                              if g \<noteq> [] then
                                                emit (ToRoom g)
                                                  (GameMasterNotification ''player_guessed''
                                                     (SubmittedGuess (username player1) (attempts player1))) w4
                                              else w4)
                                in if allPlayersExhausted s2 then
                                     (case save now (s2\<lparr>status := Ended\<rparr>) w5 of
                                        None \<Rightarrow>
                                          emit (ToSocket sock) (Error ''Failed to submit guess'') w5
                                      | Some (s3, w6) \<Rightarrow>
                                          emit (ToRoom sid)
                                            (ChatSystem
                                               (Text ''All players have used their attempts! Round ended.''))
                                            (rotateGameMaster sid now
                                               (emit (ToRoom sid)
                                                  (GameEnded AllAttemptsUsed None
                                                     (currentAnswer s3) (players s3))
                                                  (clearGameTimer sid w6))))
                                   else w5))))"

definition handleChatMessage :: "string \<Rightarrow> string \<Rightarrow> string \<Rightarrow> world \<Rightarrow> world" where
  "handleChatMessage sock sid msg w =
     (if trim msg = [] then w
      else
        (case findBySessionId sid w of
           None \<Rightarrow> w
         | Some s \<Rightarrow>
             (case find (\<lambda>p. socketId p = sock) (players s) of
                None \<Rightarrow> w
              | Some p \<Rightarrow> emit (ToRoom sid) (ChatUser (username p) (trim msg)) w)))"

definition handleStartNextRound :: "string \<Rightarrow> string \<Rightarrow> int \<Rightarrow> world \<Rightarrow> world" where
  "handleStartNextRound sock sid now w =
     (case findBySessionId sid w of
        None \<Rightarrow> emit (ToSocket sock) (Error ''Session not found'') w
      | Some s \<Rightarrow>
          if gameMasterId s \<noteq> Some sock then
            emit (ToSocket sock) (Error ''Only game master can start the next round'') w
          else
            (case save now (s\<lparr>status := Waiting, currentQuestion := None,
                              currentAnswer := None, winner := None, gameStartTime := None,
                              players := map (\<lambda>p. p\<lparr>attempts := 0\<rparr>) (players s)\<rparr>) w of
               None \<Rightarrow> emit (ToSocket sock) (Error ''Failed to start next round'') w
             | Some (s1, w1) \<Rightarrow>
                 emit (ToRoom sid)
                   (NextRoundStarting (gameMasterId s1)
                      (map_option username
                         (find (\<lambda>p. Some (socketId p) = gameMasterId s1) (players s1)))) w1))"

text \<open>
  One turn of the loop of \<^verbatim>\<open>handleDisconnect\<close>, on a document of the snapshot
  the handler took when it started. The flag is false when \<^verbatim>\<open>save\<close> threw, which
  leaves the loop.
\<close>

definition disconnectSession :: "string \<Rightarrow> int \<Rightarrow> session \<Rightarrow> world \<Rightarrow> world \<times> bool" where
  "disconnectSession sock now s w =
     (case findIndex (\<lambda>p. socketId p = sock) (players s) of
        None \<Rightarrow> (w, True)
      | Some i \<Rightarrow>
          let s1 = s\<lparr>players := (players s)[i :=
                      (players s ! i)\<lparr>isConnected := False, lastActivity := now\<rparr>]\<rparr>;
              wasGameMaster = (gameMasterId s1 = Some sock);
              (s3, w3) =
                (if wasGameMaster then
                   (case assignGameMaster s1 True w of
                      (s2, w2) \<Rightarrow>
                        if status s2 = InProgress then
                          (s2\<lparr>status := Ended\<rparr>,
                           emit (ToRoom (sessionId s2))
                             (ChatSystem (Text ''Game master disconnected. Round ended.''))
                             (rotateGameMaster (sessionId s2) now
                                (emit (ToRoom (sessionId s2))
                                   (GameEnded Timeout None (currentAnswer s2) (players s2))
                                   (clearGameTimer (sessionId s2) w2))))
                        else (s2, w2))
                 else (s1, w))
          in (case save now s3 w3 of
                None \<Rightarrow> (w3, False)
              | Some (s4, w4) \<Rightarrow>
                  (emit (ToRoom (sessionId s4))
                     (ChatSystem (Disconnected (username (players s ! i))))
                     (emit (ToRoom (sessionId s4))
                        (PlayersUpdate (players s4) (gameMasterId s4)) w4),
                   True)))"

fun disconnectLoop :: "string \<Rightarrow> int \<Rightarrow> session list \<Rightarrow> world \<Rightarrow> world" where
  "disconnectLoop sock now [] w = w"
| "disconnectLoop sock now (s # ss) w =
     (case disconnectSession sock now s w of
        (w1, ok) \<Rightarrow> if ok then disconnectLoop sock now ss w1 else w1)"

definition handleDisconnect :: "string \<Rightarrow> int \<Rightarrow> world \<Rightarrow> world" where
  "handleDisconnect sock now w =
     disconnectLoop sock now
       (filter (\<lambda>s. \<exists>p \<in> set (players s). socketId p = sock) (store w)) w"

subsection \<open>Commands and runs\<close>

datatype command =
    CreateSession string string string
  | JoinSession string string string
  | SetQuestion string string string string
  | StartGame string string
  | SubmitGuess string string string
  | ChatMessage string string string
  | StartNextRound string string
  | Disconnect string
  | TimerFires nat

fun exec :: "command \<Rightarrow> int \<Rightarrow> world \<Rightarrow> world" where
  "exec (CreateSession sock u sid) now w = handleCreateSession sock u sid now w"
| "exec (JoinSession sock u sid) now w = handleJoinSession sock u sid now w"
| "exec (SetQuestion sock sid q a) now w = handleSetQuestion sock sid q a now w"
| "exec (StartGame sock sid) now w = handleStartGame sock sid now w"
| "exec (SubmitGuess sock sid g) now w = handleSubmitGuess sock sid g now w"
| "exec (ChatMessage sock sid m) now w = handleChatMessage sock sid m w"
| "exec (StartNextRound sock sid) now w = handleStartNextRound sock sid now w"
| "exec (Disconnect sock) now w = handleDisconnect sock now w"
| "exec (TimerFires h) now w = fireTimer h now w"

subsection \<open>Observations\<close>

text \<open>The \<^verbatim>\<open>game_ended\<close> notifications emitted so far, in order.\<close>

fun isGameEnded :: "event \<Rightarrow> bool" where
  "isGameEnded (GameEnded r win ans ps) = True"
| "isGameEnded _ = False"

definition endedLog :: "world \<Rightarrow> (target \<times> event) list" where
  "endedLog w = filter (\<lambda>te. isGameEnded (snd te)) (outbox w)"

text \<open>
  The document \<^verbatim>\<open>rotateGameMaster\<close> leaves in the collection when it found
  \<open>s\<close> there and \<open>s\<close> passes the validators.
\<close>

definition rotatedDoc :: "int \<Rightarrow> session \<Rightarrow> session" where
  "rotatedDoc now s =
     (case selectNext s of
        None \<Rightarrow> s\<lparr>requiresGameMaster := True, updatedAt := now\<rparr>
      | Some n \<Rightarrow>
          s\<lparr>gameMasterId := Some (socketId (snd n)),
            players := (players s)[fst n := (snd n)\<lparr>lastGameMasterTime := Some now\<rparr>],
            status := Ended, requiresGameMaster := False, updatedAt := now\<rparr>)"

subsection \<open>A session in the middle of a round\<close>

text \<open>
  Ann created the session \<open>abc12\<close> and is its game master, Bob joined, the
  question is set and the round has started.
\<close>

definition roundSession :: session where
  "roundSession =
     \<lparr>sessionId = ''abc12'', requiresGameMaster = False,
      players = [\<lparr>socketId = ''g'', username = ''Ann'', score = 0, attempts = 0,
                  isConnected = True, lastGameMasterTime = Some 100, lastActivity = 100\<rparr>,
                 \<lparr>socketId = ''p'', username = ''Bob'', score = 0, attempts = 0,
                  isConnected = True, lastGameMasterTime = None, lastActivity = 200\<rparr>],
      gameMasterId = Some ''g'', currentQuestion = Some ''capital of france'',
      currentAnswer = Some ''paris'', status = InProgress, winner = None,
      gameStartTime = Some 400, createdAt = 100, updatedAt = 400\<rparr>"

definition roundStarted :: world where
  "roundStarted =
     \<lparr>store = [roundSession], activeTimers = (\<lambda>_. None)(''abc12'' \<mapsto> 0),
      pendingTimers = [(0, 60000, ''abc12'')], nextTimerId = 1,
      rooms = [(''abc12'', ''g''), (''abc12'', ''p'')], outbox = []\<rparr>"

text \<open>The same session before the round started, and after Bob won it.\<close>

definition readySession :: session where
  "readySession = roundSession\<lparr>status := Waiting, gameStartTime := None, updatedAt := 300\<rparr>"

definition roundReady :: world where
  "roundReady =
     \<lparr>store = [readySession], activeTimers = (\<lambda>_. None), pendingTimers = [],
      nextTimerId = 0, rooms = [(''abc12'', ''g''), (''abc12'', ''p'')], outbox = []\<rparr>"

definition endedSession :: session where
  "endedSession =
     \<lparr>sessionId = ''abc12'', requiresGameMaster = False,
      players = [\<lparr>socketId = ''g'', username = ''Ann'', score = 0, attempts = 0,
                  isConnected = True, lastGameMasterTime = Some 100, lastActivity = 100\<rparr>,
                 \<lparr>socketId = ''p'', username = ''Bob'', score = 10, attempts = 1,
                  isConnected = True, lastGameMasterTime = Some 500, lastActivity = 200\<rparr>],
      gameMasterId = Some ''p'', currentQuestion = Some ''capital of france'',
      currentAnswer = Some ''paris'', status = Ended, winner = Some ''Bob'',
      gameStartTime = Some 400, createdAt = 100, updatedAt = 500\<rparr>"

definition roundEnded :: world where
  "roundEnded =
     \<lparr>store = [endedSession], activeTimers = (\<lambda>_. None), pendingTimers = [],
      nextTimerId = 1, rooms = [(''abc12'', ''g''), (''abc12'', ''p'')], outbox = []\<rparr>"

text \<open>The session in the lobby, with a third player, Cy, who joined after Bob.\<close>

definition lobbySession :: session where
  "lobbySession =
     \<lparr>sessionId = ''abc12'', requiresGameMaster = False,
      players = [\<lparr>socketId = ''g'', username = ''Ann'', score = 0, attempts = 0,
                  isConnected = True, lastGameMasterTime = Some 100, lastActivity = 100\<rparr>,
                 \<lparr>socketId = ''p'', username = ''Bob'', score = 0, attempts = 0,
                  isConnected = True, lastGameMasterTime = None, lastActivity = 200\<rparr>,
                 \<lparr>socketId = ''c'', username = ''Cy'', score = 0, attempts = 0,
                  isConnected = True, lastGameMasterTime = None, lastActivity = 250\<rparr>],
      gameMasterId = Some ''g'', currentQuestion = None, currentAnswer = None,
      status = Waiting, winner = None, gameStartTime = None, createdAt = 100,
      updatedAt = 250\<rparr>"

subsection \<open>Order of a sorted list\<close>

text \<open>No player with a game-master time stands before a player without one.\<close>

fun noneFirst :: "(nat \<times> player) list \<Rightarrow> bool" where
  "noneFirst [] = True"
| "noneFirst (x # xs) =
     ((lastGameMasterTime (snd x) \<noteq> None \<longrightarrow>
         (\<forall>y \<in> set xs. lastGameMasterTime (snd y) \<noteq> None)) \<and> noneFirst xs)"

subsection \<open>Documents a disconnect leaves\<close>

text \<open>
  \<open>assignedDoc\<close> is the document \<^verbatim>\<open>assignGameMaster\<close> returns, \<open>unplugged\<close> the
  session with the first player of the socket marked as disconnected, and
  \<open>disconnectedDoc\<close> the document one turn of the loop of \<^verbatim>\<open>handleDisconnect\<close>
  saves last. \<open>endsRound\<close> holds when that turn ends a round.
\<close>

definition assignedDoc :: "session \<Rightarrow> session" where
  "assignedDoc s =
     (if connectedPlayers s = [] then s\<lparr>requiresGameMaster := True\<rparr>
      else if (case find (\<lambda>p. Some (socketId p) = gameMasterId s) (players s) of
                 None \<Rightarrow> False
               | Some p \<Rightarrow> isConnected p)
      then s
      else (case sortedConnected s of
              [] \<Rightarrow> s
            | first # _ \<Rightarrow>
                s\<lparr>gameMasterId := Some (socketId (snd first)), requiresGameMaster := False\<rparr>))"

definition unplugged :: "string \<Rightarrow> int \<Rightarrow> session \<Rightarrow> session" where
  "unplugged sock now s =
     (case findIndex (\<lambda>p. socketId p = sock) (players s) of
        None \<Rightarrow> s
      | Some i \<Rightarrow> s\<lparr>players := (players s)[i :=
                      (players s ! i)\<lparr>isConnected := False, lastActivity := now\<rparr>]\<rparr>)"

definition disconnectedDoc :: "string \<Rightarrow> int \<Rightarrow> session \<Rightarrow> session" where
  "disconnectedDoc sock now s =
     (case findIndex (\<lambda>p. socketId p = sock) (players s) of
        None \<Rightarrow> s
      | Some i \<Rightarrow>
          (if gameMasterId s = Some sock
           then (if status s = InProgress then (assignedDoc (unplugged sock now s))\<lparr>status := Ended\<rparr>
                 else assignedDoc (unplugged sock now s))
           else unplugged sock now s)\<lparr>updatedAt := now\<rparr>)"

definition endsRound :: "string \<Rightarrow> session \<Rightarrow> bool" where
  "endsRound sock s =
     (findIndex (\<lambda>p. socketId p = sock) (players s) \<noteq> None
      \<and> gameMasterId s = Some sock \<and> status s = InProgress)"

definition roundEndEvents :: "string \<Rightarrow> int \<Rightarrow> session list \<Rightarrow> (target \<times> event) list" where
  "roundEndEvents sock now ss =
     map (\<lambda>s. (ToRoom (sessionId s),
                GameEnded Timeout None (currentAnswer s) (players (unplugged sock now s))))
       (filter (endsRound sock) ss)"

subsection \<open>Well-formed collections\<close>

text \<open>
  What every collection written through \<^verbatim>\<open>save\<close> satisfies: each document
  passes the validators, its id is in normal form, and no two documents share an
  id (the unique index of the schema).
\<close>

definition wfStore :: "world \<Rightarrow> bool" where
  "wfStore w =
     ((\<forall>s \<in> set (store w). validSession s \<and> trim (toLowerCase (sessionId s)) = sessionId s)
      \<and> distinct (map sessionId (store w)))"

section \<open>Lemmas about the model\<close>

subsection \<open>Projections\<close>

lemma emit_proj [simp]:
  "store (emit t e w) = store w"
  "activeTimers (emit t e w) = activeTimers w"
  "pendingTimers (emit t e w) = pendingTimers w"
  "nextTimerId (emit t e w) = nextTimerId w"
  "rooms (emit t e w) = rooms w"
  "outbox (emit t e w) = outbox w @ [(t, e)]"
  by (simp_all add: emit_def)

lemma joinRoom_proj [simp]:
  "store (joinRoom r k w) = store w"
  "activeTimers (joinRoom r k w) = activeTimers w"
  "pendingTimers (joinRoom r k w) = pendingTimers w"
  "nextTimerId (joinRoom r k w) = nextTimerId w"
  "outbox (joinRoom r k w) = outbox w"
  by (simp_all add: joinRoom_def)

lemma clearGameTimer_proj [simp]:
  "store (clearGameTimer sid w) = store w"
  "activeTimers (clearGameTimer sid w) = (activeTimers w)(sid := None)"
  "nextTimerId (clearGameTimer sid w) = nextTimerId w"
  "rooms (clearGameTimer sid w) = rooms w"
  "outbox (clearGameTimer sid w) = outbox w"
  by (auto simp: clearGameTimer_def split: option.splits)

lemma pendingTimers_clearGameTimer:
  "pendingTimers (clearGameTimer sid w) =
     (case activeTimers w sid of
        None \<Rightarrow> pendingTimers w
      | Some h \<Rightarrow> filter (\<lambda>t. fst t \<noteq> h) (pendingTimers w))"
  by (simp add: clearGameTimer_def split: option.splits)

lemma setGameTimer_proj [simp]:
  "store (setGameTimer sid d w) = store w"
  "activeTimers (setGameTimer sid d w) = (activeTimers w)(sid \<mapsto> nextTimerId w)"
  "pendingTimers (setGameTimer sid d w) = pendingTimers w @ [(nextTimerId w, d, sid)]"
  "nextTimerId (setGameTimer sid d w) = Suc (nextTimerId w)"
  "rooms (setGameTimer sid d w) = rooms w"
  "outbox (setGameTimer sid d w) = outbox w"
  by (simp_all add: setGameTimer_def Let_def)

lemma findBySessionId_store:
  "store w' = store w \<Longrightarrow> findBySessionId sid w' = findBySessionId sid w"
  by (simp add: findBySessionId_def)

lemma findBySessionId_proj [simp]:
  "findBySessionId sid (emit t e w) = findBySessionId sid w"
  "findBySessionId sid (joinRoom r k w) = findBySessionId sid w"
  "findBySessionId sid (clearGameTimer k w) = findBySessionId sid w"
  "findBySessionId sid (setGameTimer k d w) = findBySessionId sid w"
  by (simp_all add: findBySessionId_def)

subsection \<open>The collection\<close>

lemma find_replaceDoc:
  "find (\<lambda>d. sessionId d = k) (replaceDoc s ds) =
     (if sessionId s = k then Some s else find (\<lambda>d. sessionId d = k) ds)"
  by (induction ds) auto

lemma findBySessionId_sessionId:
  "findBySessionId sid w = Some s \<Longrightarrow> sessionId s = trim (toLowerCase sid)"
  by (auto simp: findBySessionId_def find_Some_iff)

lemma save_valid:
  "validSession s \<Longrightarrow>
   save now s w = Some (s\<lparr>updatedAt := now\<rparr>, w\<lparr>store := replaceDoc (s\<lparr>updatedAt := now\<rparr>) (store w)\<rparr>)"
  by (simp add: save_def Let_def)

lemma save_invalid: "\<not> validSession s \<Longrightarrow> save now s w = None"
  by (simp add: save_def)

lemma save_Some:
  "save now s w = Some (s', w') \<Longrightarrow>
   validSession s \<and> s' = s\<lparr>updatedAt := now\<rparr> \<and> w' = w\<lparr>store := replaceDoc s' (store w)\<rparr>"
  by (auto simp: save_def Let_def split: if_splits)

lemma findBySessionId_replace:
  "findBySessionId sid (w\<lparr>store := replaceDoc s (store w)\<rparr>) =
     (if sessionId s = trim (toLowerCase sid) then Some s else findBySessionId sid w)"
  by (simp add: findBySessionId_def find_replaceDoc)

subsection \<open>Sorting\<close>

lemma set_insertBy [simp]: "set (insertBy cmp x xs) = insert x (set xs)"
  by (induction xs) auto

lemma set_sortBy [simp]: "set (sortBy cmp xs) = set xs"
  by (induction xs) (auto simp: sortBy_def)

lemma sortBy_Nil [simp]: "(sortBy cmp xs = []) = (xs = [])"
  by (metis set_sortBy set_empty)

lemma in_connectedPlayers:
  "(ip \<in> set (connectedPlayers s)) =
     (fst ip < length (players s) \<and> snd ip = players s ! fst ip \<and> isConnected (snd ip))"
  by (auto simp: connectedPlayers_def in_set_enumerate_eq)

lemma sortedConnected_Nil [simp]: "(sortedConnected s = []) = (connectedPlayers s = [])"
  by (simp add: sortedConnected_def)

lemma in_sortedConnected:
  "(ip \<in> set (sortedConnected s)) =
     (fst ip < length (players s) \<and> snd ip = players s ! fst ip \<and> isConnected (snd ip))"
  by (simp add: sortedConnected_def in_connectedPlayers)

lemma selectNext_in: "selectNext s = Some ip \<Longrightarrow> ip \<in> set (sortedConnected s)"
proof -
  assume a: "selectNext s = Some ip"
  have f: "x \<in> set xs" if "filter P xs = x # ys" for P and xs :: "(nat \<times> player) list" and x ys
  proof -
    have "x \<in> set (filter P xs)" using that by simp
    then show ?thesis by simp
  qed
  from a show ?thesis
    unfolding selectNext_def Let_def
    by (auto split: list.splits if_splits option.splits dest: f)
qed

lemma selectNext_Some:
  "selectNext s = Some ip \<Longrightarrow>
   fst ip < length (players s) \<and> snd ip = players s ! fst ip \<and> isConnected (snd ip)"
  using selectNext_in in_sortedConnected by blast

lemma selectNext_None [simp]: "(selectNext s = None) = (connectedPlayers s = [])"
proof (cases "sortedConnected s")
  case Nil
  then show ?thesis
    using sortedConnected_Nil [of s] by (simp add: selectNext_def del: sortedConnected_Nil)
next
  case (Cons a list)
  then have "connectedPlayers s \<noteq> []"
    using sortedConnected_Nil [of s] by (simp del: sortedConnected_Nil)
  then show ?thesis
    using Cons
    by (simp add: selectNext_def Let_def del: sortedConnected_Nil split: list.splits option.splits)
qed

lemma endedLog_emit [simp]:
  "endedLog (emit t e w) = endedLog w @ (if isGameEnded e then [(t, e)] else [])"
  by (simp add: endedLog_def)

lemma endedLog_proj [simp]:
  "endedLog (joinRoom r k w) = endedLog w"
  "endedLog (clearGameTimer sid w) = endedLog w"
  "endedLog (setGameTimer sid d w) = endedLog w"
  by (simp_all add: endedLog_def)

lemma endedLog_store [simp]: "endedLog (w\<lparr>store := x\<rparr>) = endedLog w"
  by (simp add: endedLog_def)

lemma list_all_validPlayer_upd:
  "i < length ps \<Longrightarrow> validPlayer q = validPlayer (ps ! i) \<Longrightarrow>
   list_all validPlayer (ps[i := q]) = list_all validPlayer ps"
  by (auto simp: list_all_length nth_list_update)

lemma validSession_rotated:
  assumes "selectNext s = Some n"
  shows "validSession (s\<lparr>gameMasterId := g,
            players := (players s)[fst n := (snd n)\<lparr>lastGameMasterTime := t\<rparr>],
            status := Ended, requiresGameMaster := r\<rparr>) = validSession s"
proof -
  from selectNext_Some [OF assms]
  have n: "fst n < length (players s)" "snd n = players s ! fst n" by auto
  then have ne: "players s \<noteq> []" by auto
  have "validPlayer ((snd n)\<lparr>lastGameMasterTime := t\<rparr>) = validPlayer (players s ! fst n)"
    using n by (simp add: validPlayer_def)
  from list_all_validPlayer_upd [OF n(1) this] ne show ?thesis
    by (simp add: validSession_def)
qed

lemma rotate_world:
  assumes "findBySessionId sid w = Some s" and "validSession s"
  shows "store (rotateGameMaster sid now w) = replaceDoc (rotatedDoc now s) (store w)"
    and "endedLog (rotateGameMaster sid now w) = endedLog w"
proof -
  show "store (rotateGameMaster sid now w) = replaceDoc (rotatedDoc now s) (store w)"
  proof (cases "selectNext s")
    case None
    then have "connectedPlayers s = []" by simp
    moreover have "validSession (s\<lparr>requiresGameMaster := True\<rparr>)"
      using assms(2) by (simp add: validSession_def)
    ultimately show ?thesis
      using assms(1) None by (simp add: rotateGameMaster_def rotatedDoc_def save_valid del: selectNext_None)
  next
    case (Some n)
    then have "connectedPlayers s \<noteq> []" using selectNext_None [of s] by (simp del: selectNext_None)
    then show ?thesis
      using assms Some validSession_rotated [OF Some]
      by (simp add: rotateGameMaster_def rotatedDoc_def save_valid Let_def del: selectNext_None)
  qed
  show "endedLog (rotateGameMaster sid now w) = endedLog w"
    by (simp add: rotateGameMaster_def save_def Let_def split: option.splits prod.splits)
qed

lemma rotate_frame [simp]:
  "activeTimers (rotateGameMaster sid now w) = activeTimers w"
  "pendingTimers (rotateGameMaster sid now w) = pendingTimers w"
  "nextTimerId (rotateGameMaster sid now w) = nextTimerId w"
  "rooms (rotateGameMaster sid now w) = rooms w"
  by (auto simp: rotateGameMaster_def save_def Let_def split: option.splits prod.splits)

lemma endedLog_rotate [simp]: "endedLog (rotateGameMaster sid now w) = endedLog w"
  by (auto simp: rotateGameMaster_def save_def Let_def split: option.splits prod.splits)

lemma rotatedDoc_fields [simp]:
  "sessionId (rotatedDoc now s) = sessionId s"
  "winner (rotatedDoc now s) = winner s"
  "currentQuestion (rotatedDoc now s) = currentQuestion s"
  "currentAnswer (rotatedDoc now s) = currentAnswer s"
  "gameStartTime (rotatedDoc now s) = gameStartTime s"
  "createdAt (rotatedDoc now s) = createdAt s"
  "updatedAt (rotatedDoc now s) = now"
  "length (players (rotatedDoc now s)) = length (players s)"
  by (simp_all add: rotatedDoc_def split: option.splits)



lemma findIndex_Some:
  "findIndex P xs = Some i \<Longrightarrow> i < length xs \<and> P (xs ! i) \<and> (\<forall>j<i. \<not> P (xs ! j))"
proof (induction xs arbitrary: i)
  case Nil
  then show ?case by simp
next
  case (Cons x xs)
  show ?case
  proof (cases "P x")
    case True
    with Cons.prems show ?thesis by simp
  next
    case False
    with Cons.prems obtain k where k: "findIndex P xs = Some k" "i = Suc k" by auto
    from Cons.IH [OF k(1)] False k(2) show ?thesis
      by (auto simp: nth_Cons split: nat.splits)
  qed
qed

lemma findIndex_None: "(findIndex P xs = None) = (\<forall>x \<in> set xs. \<not> P x)"
  by (induction xs) auto

lemma validSession_player_upd:
  assumes "validSession s" and "i < length (players s)" and "validPlayer q"
  shows "validSession (s\<lparr>players := (players s)[i := q]\<rparr>)"
proof -
  have "list_all validPlayer ((players s)[i := q])"
    using assms by (auto simp: validSession_def list_all_length nth_list_update)
  moreover have "players s \<noteq> []" using assms(2) by auto
  ultimately show ?thesis using assms(1) by (simp add: validSession_def)
qed

lemma validSession_nth:
  "validSession s \<Longrightarrow> i < length (players s) \<Longrightarrow> validPlayer (players s ! i)"
  by (simp add: validSession_def list_all_length)

lemma validSession_fields [simp]:
  "validSession (s\<lparr>updatedAt := u\<rparr>) = validSession s"
  "validSession (s\<lparr>winner := wi\<rparr>) = validSession s"
  "validSession (s\<lparr>gameMasterId := g\<rparr>) = validSession s"
  "validSession (s\<lparr>requiresGameMaster := r\<rparr>) = validSession s"
  "validSession (s\<lparr>currentQuestion := q\<rparr>) = validSession s"
  "validSession (s\<lparr>currentAnswer := a\<rparr>) = validSession s"
  "validSession (s\<lparr>gameStartTime := gs\<rparr>) = validSession s"
  by (simp_all add: validSession_def)

lemma validSession_status:
  "players s \<noteq> [] \<Longrightarrow> validSession (s\<lparr>status := st\<rparr>) = validSession s"
  by (simp add: validSession_def)

lemma validSession_reset:
  assumes "validSession s"
  shows "validSession (s\<lparr>players := map (\<lambda>p. p\<lparr>attempts := 0\<rparr>) (players s)\<rparr>)"
proof -
  have "list_all validPlayer (map (\<lambda>p. p\<lparr>attempts := 0\<rparr>) (players s))"
    using assms by (auto simp: validSession_def list_all_iff validPlayer_def)
  then show ?thesis using assms by (simp add: validSession_def)
qed


lemma allPlayersExhausted_updatedAt [simp]:
  "allPlayersExhausted (s\<lparr>updatedAt := u\<rparr>) = allPlayersExhausted s"
  by (simp add: allPlayersExhausted_def)


lemma assign_session:
  "players (fst (assignGameMaster s n w)) = players s"
  "sessionId (fst (assignGameMaster s n w)) = sessionId s"
  "status (fst (assignGameMaster s n w)) = status s"
  "currentQuestion (fst (assignGameMaster s n w)) = currentQuestion s"
  "currentAnswer (fst (assignGameMaster s n w)) = currentAnswer s"
  "winner (fst (assignGameMaster s n w)) = winner s"
  "gameStartTime (fst (assignGameMaster s n w)) = gameStartTime s"
  "createdAt (fst (assignGameMaster s n w)) = createdAt s"
  "updatedAt (fst (assignGameMaster s n w)) = updatedAt s"
  by (simp_all add: assignGameMaster_def Let_def split: list.splits)

lemma assign_world [simp]:
  "store (snd (assignGameMaster s n w)) = store w"
  "activeTimers (snd (assignGameMaster s n w)) = activeTimers w"
  "pendingTimers (snd (assignGameMaster s n w)) = pendingTimers w"
  "nextTimerId (snd (assignGameMaster s n w)) = nextTimerId w"
  "rooms (snd (assignGameMaster s n w)) = rooms w"
  "endedLog (snd (assignGameMaster s n w)) = endedLog w"
  by (simp_all add: assignGameMaster_def Let_def split: list.splits)

lemma assign_valid [simp]: "validSession (fst (assignGameMaster s n w)) = validSession s"
  by (simp add: validSession_def assign_session)

lemma joinFinish_find:
  assumes "validSession s"
  shows "findBySessionId k (joinFinish sock u r now s w) =
     (if sessionId s = trim (toLowerCase k)
      then Some ((fst (assignGameMaster s True w))\<lparr>updatedAt := now\<rparr>)
      else findBySessionId k w)"
proof -
  obtain s1 w1 where a: "assignGameMaster s True w = (s1, w1)" by (cases "assignGameMaster s True w")
  have v: "validSession s1" using assign_valid [of s True w] assms a by simp
  have f: "findBySessionId k w1 = findBySessionId k w"
    using assign_world(1) [of s True w] a by (simp add: findBySessionId_def)
  have i: "sessionId s1 = sessionId s" using assign_session(2) [of s True w] a by simp
  show ?thesis
    using a v f i
    by (simp add: joinFinish_def save_def Let_def findBySessionId_def find_replaceDoc
        split: option.splits)
qed

lemma findIndex_None_set: "findIndex P xs = None \<Longrightarrow> x \<in> set xs \<Longrightarrow> \<not> P x"
  by (simp add: findIndex_None)

lemma join_existing_player:
  assumes nonblank: "trim usernameArg \<noteq> []" "trim sessionIdArg \<noteq> []"
    and found: "findBySessionId (toLowerCase (trim sessionIdArg)) w = Some s"
    and valid: "validSession s"
    and sock: "sock \<noteq> []"
    and fi: "findIndex (\<lambda>p. username p = trim usernameArg) (players s) = Some i"
  shows "\<exists>s'. findBySessionId (toLowerCase (trim sessionIdArg))
            (handleJoinSession sock usernameArg sessionIdArg now w) = Some s'
      \<and> players s' = (players s)[i := (players s ! i)
            \<lparr>socketId := sock, isConnected := True, lastActivity := now\<rparr>]"
proof -
  define k where "k = toLowerCase (trim sessionIdArg)"
  define q where "q = (players s ! i)\<lparr>socketId := sock, isConnected := True, lastActivity := now\<rparr>"
  define s1 where "s1 = s\<lparr>players := (players s)[i := q]\<rparr>"
  have sid: "sessionId s = trim (toLowerCase k)"
    using findBySessionId_sessionId [OF found] by (simp add: k_def)
  from findIndex_Some [OF fi] have i: "i < length (players s)" by simp
  have "validPlayer (players s ! i)" by (rule validSession_nth [OF valid i])
  then have "validPlayer q" using sock by (simp add: q_def validPlayer_def)
  from validSession_player_upd [OF valid i this] have v1: "validSession s1" by (simp add: s1_def)
  have h: "handleJoinSession sock usernameArg sessionIdArg now w =
      joinFinish sock (trim usernameArg) True now s1 w"
    using nonblank found fi by (simp add: handleJoinSession_def Let_def s1_def q_def)
  have f: "findBySessionId k (joinFinish sock (trim usernameArg) True now s1 w) =
      Some ((fst (assignGameMaster s1 True w))\<lparr>updatedAt := now\<rparr>)"
    using joinFinish_find [OF v1] sid by (simp add: s1_def)
  have p: "players ((fst (assignGameMaster s1 True w))\<lparr>updatedAt := now\<rparr>) = (players s)[i := q]"
    by (simp add: assign_session s1_def)
  show ?thesis using h f p by (simp add: q_def k_def)
qed

lemma join_new_player:
  assumes nonblank: "trim usernameArg \<noteq> []" "trim sessionIdArg \<noteq> []"
    and found: "findBySessionId (toLowerCase (trim sessionIdArg)) w = Some s"
    and valid: "validSession s"
    and sock: "sock \<noteq> []"
    and fi: "findIndex (\<lambda>p. username p = trim usernameArg) (players s) = None"
    and st: "status s \<noteq> InProgress"
    and ln: "length (trim usernameArg) \<le> 20"
  shows "\<exists>s'. findBySessionId (toLowerCase (trim sessionIdArg))
            (handleJoinSession sock usernameArg sessionIdArg now w) = Some s'
      \<and> players s' = players s @ [newPlayer sock (trim usernameArg) None now]"
proof -
  define k where "k = toLowerCase (trim sessionIdArg)"
  define name where "name = trim usernameArg"
  define s1 where "s1 = s\<lparr>players := players s @ [newPlayer sock name None now]\<rparr>"
  have sid: "sessionId s = trim (toLowerCase k)"
    using findBySessionId_sessionId [OF found] by (simp add: k_def)
  have "validPlayer (newPlayer sock name None now)"
    using sock ln nonblank(1) by (simp add: validPlayer_def newPlayer_def name_def)
  then have v1: "validSession s1" using valid by (simp add: s1_def validSession_def)
  have h: "handleJoinSession sock usernameArg sessionIdArg now w =
      joinFinish sock name False now s1 w"
    using nonblank found fi st
    by (simp add: handleJoinSession_def Let_def name_def [symmetric] s1_def)
  have f: "findBySessionId k (joinFinish sock name False now s1 w) =
      Some ((fst (assignGameMaster s1 True w))\<lparr>updatedAt := now\<rparr>)"
    using joinFinish_find [OF v1] sid by (simp add: s1_def)
  have p: "players ((fst (assignGameMaster s1 True w))\<lparr>updatedAt := now\<rparr>) =
      players s @ [newPlayer sock name None now]"
    by (simp add: assign_session s1_def)
  show ?thesis using h f p by (simp add: k_def name_def)
qed


subsection \<open>Normalising an id twice\<close>

lemma isWhiteSpace_lowerChar [simp]: "isWhiteSpace (lowerChar c) = isWhiteSpace c"
proof -
  have "of_char c < (256::nat)" by simp
  then show ?thesis
    by (auto simp: isWhiteSpace_def lowerChar_def Let_def)
qed

lemma trim_toLowerCase: "trim (toLowerCase s) = toLowerCase (trim s)"
proof -
  have c: "isWhiteSpace \<circ> lowerChar = isWhiteSpace" by (rule ext) simp
  have d: "dropWhile isWhiteSpace (map lowerChar xs) = map lowerChar (dropWhile isWhiteSpace xs)"
    for xs by (simp add: dropWhile_map c)
  show ?thesis
    by (simp only: trim_def toLowerCase_def d rev_map)
qed

lemma lowerChar_idem [simp]: "lowerChar (lowerChar c) = lowerChar c"
proof -
  have "of_char c < (256::nat)" by simp
  then show ?thesis
    by (auto simp: lowerChar_def Let_def)
qed

lemma toLowerCase_idem [simp]: "toLowerCase (toLowerCase s) = toLowerCase s"
  by (simp add: toLowerCase_def)

lemma trim_idem [simp]: "trim (trim s) = trim s"
proof -
  define a where "a = dropWhile isWhiteSpace s"
  define b where "b = rev (dropWhile isWhiteSpace (rev a))"
  have ab: "a = b @ rev (takeWhile isWhiteSpace (rev a))"
  proof -
    have "a = rev (takeWhile isWhiteSpace (rev a) @ dropWhile isWhiteSpace (rev a))"
      by (simp only: takeWhile_dropWhile_id rev_rev_ident)
    then show ?thesis by (simp only: rev_append b_def)
  qed
  have ha: "a = [] \<or> \<not> isWhiteSpace (hd a)"
    unfolding a_def by (metis dropWhile_eq_Nil_conv hd_dropWhile)
  have hb: "b = [] \<or> \<not> isWhiteSpace (hd b)"
  proof (cases "b = []")
    case True
    then show ?thesis by simp
  next
    case False
    then have "hd a = hd b" using ab by (metis hd_append2)
    moreover have "a \<noteq> []" using False ab by auto
    ultimately show ?thesis using ha by simp
  qed
  then have 1: "dropWhile isWhiteSpace b = b" by (simp add: dropWhile_eq_self_iff)
  have 2: "dropWhile isWhiteSpace (rev b) = rev b"
    by (simp add: b_def)
  show ?thesis
    using 1 2 by (simp add: trim_def a_def [symmetric] b_def [symmetric])
qed

lemma normalise_twice: "trim (toLowerCase (toLowerCase (trim s))) = toLowerCase (trim s)"
  by (simp add: trim_toLowerCase)

subsection \<open>Creating a session\<close>

lemma find_None_replaceDoc:
  "find (\<lambda>d. sessionId d = sessionId s) ds = None \<Longrightarrow> replaceDoc s ds = ds @ [s]"
  by (induction ds) (auto split: if_splits)

lemma create_session:
  assumes nonblank: "trim usernameArg \<noteq> []" "trim sessionIdArg \<noteq> []"
    and fresh: "findBySessionId (toLowerCase (trim sessionIdArg)) w = None"
    and len: "3 \<le> length (trim sessionIdArg)" "length (trim sessionIdArg) \<le> 20"
      "length (trim usernameArg) \<le> 20"
    and sock: "sock \<noteq> []"
  shows "store (handleCreateSession sock usernameArg sessionIdArg now w) =
     store w @
       [\<lparr>sessionId = toLowerCase (trim sessionIdArg), requiresGameMaster = False,
         players = [newPlayer sock (trim usernameArg) (Some now) now],
         gameMasterId = Some sock, currentQuestion = None, currentAnswer = None,
         status = Waiting, winner = None, gameStartTime = None, createdAt = now,
         updatedAt = now\<rparr>]"
proof -
  define s0 where "s0 = \<lparr>sessionId = toLowerCase (trim sessionIdArg), requiresGameMaster = False,
         players = [newPlayer sock (trim usernameArg) (Some now) now],
         gameMasterId = Some sock, currentQuestion = None, currentAnswer = None,
         status = Waiting, winner = None, gameStartTime = None, createdAt = now,
         updatedAt = now\<rparr>"
  have v: "validSession s0"
    using nonblank len sock
    by (simp add: s0_def validSession_def validPlayer_def newPlayer_def toLowerCase_def)
  have f: "find (\<lambda>d. sessionId d = sessionId s0) (store w) = None"
    using fresh by (simp add: findBySessionId_def trim_toLowerCase s0_def)
  have u: "s0\<lparr>updatedAt := now\<rparr> = s0" by (simp add: s0_def)
  have "store (handleCreateSession sock usernameArg sessionIdArg now w) = replaceDoc s0 (store w)"
    using nonblank fresh v u
    by (simp add: handleCreateSession_def Let_def save_def s0_def [symmetric])
  then show ?thesis using find_None_replaceDoc [OF f] by (simp add: s0_def)
qed

lemma noneFirst_insertBy:
  "noneFirst xs \<Longrightarrow> noneFirst (insertBy (\<lambda>a b. compareGM (snd a) (snd b)) x xs)"
proof (induction xs)
  case Nil
  then show ?case by simp
next
  case (Cons y ys)
  have nf: "noneFirst ys"
    and hy: "lastGameMasterTime (snd y) \<noteq> None \<longrightarrow>
      (\<forall>z \<in> set ys. lastGameMasterTime (snd z) \<noteq> None)"
    using Cons.prems by simp_all
  show ?case
  proof (cases "compareGM (snd x) (snd y) \<le> 0")
    case True
    have "lastGameMasterTime (snd x) \<noteq> None \<longrightarrow> lastGameMasterTime (snd y) \<noteq> None"
      using True by (simp add: compareGM_def split: option.splits)
    then have "lastGameMasterTime (snd x) \<noteq> None \<longrightarrow>
        (\<forall>z \<in> set (y # ys). lastGameMasterTime (snd z) \<noteq> None)"
      using hy unfolding list.set by blast
    then have "noneFirst (x # y # ys)"
      using Cons.prems unfolding noneFirst.simps(2) [of x "y # ys"] by blast
    then show ?thesis using True by (simp only: insertBy.simps if_True)
  next
    case False
    have hx: "lastGameMasterTime (snd x) \<noteq> None"
      using False by (simp add: compareGM_def split: option.splits)
    have ih: "noneFirst (insertBy (\<lambda>a b. compareGM (snd a) (snd b)) x ys)"
      by (rule Cons.IH [OF nf])
    have "lastGameMasterTime (snd y) \<noteq> None \<longrightarrow>
        (\<forall>z \<in> insert x (set ys). lastGameMasterTime (snd z) \<noteq> None)"
      using hy hx by blast
    then have "noneFirst (y # insertBy (\<lambda>a b. compareGM (snd a) (snd b)) x ys)"
      using ih unfolding noneFirst.simps set_insertBy by blast
    then show ?thesis using False by (simp only: insertBy.simps if_False)
  qed
qed

lemma noneFirst_sortBy: "noneFirst (sortBy (\<lambda>a b. compareGM (snd a) (snd b)) xs)"
  by (induction xs) (simp_all add: sortBy_def noneFirst_insertBy)

lemma noneFirst_filter: "noneFirst xs \<Longrightarrow> noneFirst (filter P xs)"
  by (induction xs) auto

lemma noneFirst_nth:
  "noneFirst xs \<Longrightarrow> i < j \<Longrightarrow> j < length xs \<Longrightarrow>
   lastGameMasterTime (snd (xs ! j)) = None \<Longrightarrow> lastGameMasterTime (snd (xs ! i)) = None"
proof (induction xs arbitrary: i j)
  case Nil
  then show ?case by simp
next
  case (Cons x xs)
  obtain j' where j: "j = Suc j'" using Cons.prems(2) by (cases j) auto
  show ?case
  proof (cases i)
    case 0
    have m: "xs ! j' \<in> set xs" using Cons.prems(3) j by simp
    have n: "lastGameMasterTime (snd (xs ! j')) = None" using Cons.prems(4) j by simp
    have "lastGameMasterTime (snd x) \<noteq> None \<longrightarrow>
        (\<forall>y \<in> set xs. lastGameMasterTime (snd y) \<noteq> None)"
      using Cons.prems(1) by simp
    then have "lastGameMasterTime (snd x) = None" using m n by blast
    then show ?thesis using 0 by simp
  next
    case (Suc i')
    then show ?thesis using Cons.IH [of i' j'] Cons.prems j by simp
  qed
qed

lemma noneFirst_head:
  "noneFirst (x # xs) \<Longrightarrow> y \<in> set (x # xs) \<Longrightarrow> lastGameMasterTime (snd y) = None \<Longrightarrow>
   lastGameMasterTime (snd x) = None"
  by auto

lemma find_append:
  "find P (xs @ ys) = (case find P xs of None \<Rightarrow> find P ys | Some x \<Rightarrow> Some x)"
  by (induction xs) auto

lemma sortedConnected_noneFirst: "noneFirst (sortedConnected s)"
  by (simp add: sortedConnected_def noneFirst_sortBy)

lemma selectNext_prefers_none:
  assumes sel: "selectNext s = Some n"
    and p: "p \<in> set (players s)" "isConnected p" "Some (socketId p) \<noteq> gameMasterId s"
      "lastGameMasterTime p = None"
  shows "lastGameMasterTime (snd n) = None"
proof -
  from p(1) obtain i where i: "i < length (players s)" "players s ! i = p"
    by (auto simp: in_set_conv_nth)
  then have mem: "(i, p) \<in> set (sortedConnected s)"
    using p(2) by (simp add: in_sortedConnected)
  define others where
    "others = filter (\<lambda>ip. Some (socketId (snd ip)) \<noteq> gameMasterId s) (sortedConnected s)"
  have memo: "(i, p) \<in> set others" using mem p(3) by (simp add: others_def)
  have nfo: "noneFirst others"
    unfolding others_def by (rule noneFirst_filter [OF sortedConnected_noneFirst])
  obtain first rest where sc: "sortedConnected s = first # rest"
    using mem by (cases "sortedConnected s") auto
  obtain o1 orest where oc: "others = o1 # orest"
    using memo by (cases others) auto
  have sel_eq: "selectNext s =
      (case sortedConnected s of
         [] \<Rightarrow> None
       | first # _ \<Rightarrow>
           if (case findIndex (\<lambda>p. Some (socketId p) = gameMasterId s) (players s) of
                 None \<Rightarrow> False
               | Some i \<Rightarrow> isConnected (players s ! i))
           then (case others of [] \<Rightarrow> Some first | other # _ \<Rightarrow> Some other)
           else Some first)"
    unfolding selectNext_def Let_def others_def ..
  have "n = first \<or> n = o1"
    using sel unfolding sel_eq sc oc by (simp split: if_splits)
  moreover have "lastGameMasterTime (snd first) = None"
    using noneFirst_head [of first rest "(i, p)"] sortedConnected_noneFirst [of s] sc mem p(4)
    by simp
  moreover have "lastGameMasterTime (snd o1) = None"
    using noneFirst_head [of o1 orest "(i, p)"] nfo oc memo p(4) by simp
  ultimately show ?thesis by auto
qed


lemma assign_fst: "fst (assignGameMaster s n w) = assignedDoc s"
  by (simp add: assignGameMaster_def assignedDoc_def Let_def split: list.splits)

lemma assignedDoc_fields [simp]:
  "players (assignedDoc s) = players s"
  "sessionId (assignedDoc s) = sessionId s"
  "status (assignedDoc s) = status s"
  "currentQuestion (assignedDoc s) = currentQuestion s"
  "currentAnswer (assignedDoc s) = currentAnswer s"
  "winner (assignedDoc s) = winner s"
  "gameStartTime (assignedDoc s) = gameStartTime s"
  "createdAt (assignedDoc s) = createdAt s"
  "updatedAt (assignedDoc s) = updatedAt s"
  "validSession (assignedDoc s) = validSession s"
  by (simp_all add: assignedDoc_def validSession_def split: list.splits)

lemma replaceDoc_twice:
  "sessionId a = sessionId b \<Longrightarrow> replaceDoc a (replaceDoc b ds) = replaceDoc a ds"
  by (induction ds) auto

lemma map_sessionId_replaceDoc:
  "find (\<lambda>d. sessionId d = sessionId s) ds \<noteq> None \<Longrightarrow>
   map sessionId (replaceDoc s ds) = map sessionId ds"
  by (induction ds) auto

lemma set_replaceDoc:
  "set (replaceDoc s ds) \<subseteq> insert s (set ds)"
  by (induction ds) auto

lemma in_replaceDoc_other:
  "d \<in> set ds \<Longrightarrow> sessionId d \<noteq> sessionId s \<Longrightarrow> d \<in> set (replaceDoc s ds)"
  by (induction ds) auto

lemma find_in_distinct:
  "distinct (map sessionId ds) \<Longrightarrow> s \<in> set ds \<Longrightarrow>
   find (\<lambda>d. sessionId d = sessionId s) ds = Some s"
  by (induction ds) (auto simp: rev_image_eqI)

lemma wfStore_find:
  "wfStore w \<Longrightarrow> s \<in> set (store w) \<Longrightarrow> findBySessionId (sessionId s) w = Some s"
  by (simp add: wfStore_def findBySessionId_def find_in_distinct)

lemma find_Some_set: "find P xs = Some x \<Longrightarrow> x \<in> set xs \<and> P x"
  by (induction xs) (auto split: if_splits)

lemma wfStore_found:
  "wfStore w \<Longrightarrow> findBySessionId k w = Some s \<Longrightarrow>
   s \<in> set (store w) \<and> validSession s \<and> trim (toLowerCase (sessionId s)) = sessionId s"
  by (auto simp: wfStore_def findBySessionId_def dest!: find_Some_set)

lemma wfStore_replace:
  assumes "wfStore w" and "s \<in> set (store w)" and "validSession s'"
    and "sessionId s' = sessionId s"
  shows "wfStore (w\<lparr>store := replaceDoc s' (store w)\<rparr>)"
proof -
  have f: "find (\<lambda>d. sessionId d = sessionId s') (store w) \<noteq> None"
    using find_in_distinct [of "store w" s] assms by (simp add: wfStore_def)
  have c: "trim (toLowerCase (sessionId s')) = sessionId s'"
    using assms by (simp add: wfStore_def)
  show ?thesis
    using assms(1,3) c set_replaceDoc [of s' "store w"] map_sessionId_replaceDoc [OF f]
    by (auto simp: wfStore_def)
qed

lemma replaceDoc_same:
  "distinct (map sessionId ds) \<Longrightarrow> s \<in> set ds \<Longrightarrow> replaceDoc s ds = ds"
  by (induction ds) (auto simp: rev_image_eqI)

lemma validSession_unplugged: "validSession s \<Longrightarrow> validSession (unplugged sock now s)"
proof (cases "findIndex (\<lambda>p. socketId p = sock) (players s)")
  case None
  then show "validSession s \<Longrightarrow> validSession (unplugged sock now s)"
    by (simp add: unplugged_def)
next
  case (Some i)
  assume v: "validSession s"
  from findIndex_Some [OF Some] have i: "i < length (players s)" by simp
  have "validPlayer (players s ! i)" by (rule validSession_nth [OF v i])
  then have "validPlayer ((players s ! i)\<lparr>isConnected := False, lastActivity := now\<rparr>)"
    by (simp add: validPlayer_def)
  from validSession_player_upd [OF v i this] show "validSession (unplugged sock now s)"
    using Some by (simp add: unplugged_def)
qed

lemma unplugged_fields [simp]:
  "sessionId (unplugged sock now s) = sessionId s"
  "status (unplugged sock now s) = status s"
  "gameMasterId (unplugged sock now s) = gameMasterId s"
  "currentAnswer (unplugged sock now s) = currentAnswer s"
  "length (players (unplugged sock now s)) = length (players s)"
  by (simp_all add: unplugged_def split: option.splits)

lemma disconnectSession_step:
  assumes wf: "wfStore w" and mem: "s \<in> set (store w)"
  shows "snd (disconnectSession sock now s w) = True"
    and "store (fst (disconnectSession sock now s w)) =
           replaceDoc (disconnectedDoc sock now s) (store w)"
    and "activeTimers (fst (disconnectSession sock now s w)) =
           (if endsRound sock s then (activeTimers w)(sessionId s := None) else activeTimers w)"
    and "pendingTimers (fst (disconnectSession sock now s w)) =
           (if endsRound sock s then pendingTimers (clearGameTimer (sessionId s) w)
            else pendingTimers w)"
    and "nextTimerId (fst (disconnectSession sock now s w)) = nextTimerId w"
    and "endedLog (fst (disconnectSession sock now s w)) =
           endedLog w @
             (if endsRound sock s
              then [(ToRoom (sessionId s),
                     GameEnded Timeout None (currentAnswer s) (players (unplugged sock now s)))]
              else [])"
proof -
  have v: "validSession s" and d: "distinct (map sessionId (store w))"
    using wf mem by (auto simp: wfStore_def)
  have fs: "findBySessionId (sessionId s) w = Some s" by (rule wfStore_find [OF wf mem])
  define u where "u = unplugged sock now s"
  have vu: "validSession u" unfolding u_def by (rule validSession_unplugged [OF v])
  have all: "snd (disconnectSession sock now s w) = True
    \<and> store (fst (disconnectSession sock now s w)) =
           replaceDoc (disconnectedDoc sock now s) (store w)
    \<and> activeTimers (fst (disconnectSession sock now s w)) =
           (if endsRound sock s then (activeTimers w)(sessionId s := None) else activeTimers w)
    \<and> pendingTimers (fst (disconnectSession sock now s w)) =
           (if endsRound sock s then pendingTimers (clearGameTimer (sessionId s) w)
            else pendingTimers w)
    \<and> nextTimerId (fst (disconnectSession sock now s w)) = nextTimerId w
    \<and> endedLog (fst (disconnectSession sock now s w)) =
           endedLog w @
             (if endsRound sock s
              then [(ToRoom (sessionId s), GameEnded Timeout None (currentAnswer s) (players u))]
              else [])"
  proof (cases "findIndex (\<lambda>p. socketId p = sock) (players s)")
    case None
    then show ?thesis
      using replaceDoc_same [OF d mem]
      by (simp add: disconnectSession_def disconnectedDoc_def endsRound_def)
  next
    case (Some i)
    from findIndex_Some [OF Some] have i: "i < length (players s)" by simp
    then have ne: "players s \<noteq> []" by auto
    have us: "s\<lparr>players := (players s)[i :=
        (players s ! i)\<lparr>isConnected := False, lastActivity := now\<rparr>]\<rparr> = u"
      using Some by (simp add: u_def unplugged_def)
    have gu: "gameMasterId u = gameMasterId s" "status u = status s"
      "sessionId u = sessionId s" "currentAnswer u = currentAnswer s"
      by (simp_all add: u_def)
    show ?thesis
    proof (cases "gameMasterId s = Some sock")
      case False
      then show ?thesis
        using Some vu us gu
        by (simp add: disconnectSession_def disconnectedDoc_def endsRound_def Let_def
            save_def u_def [symmetric])
    next
      case gm: True
      obtain s2 w2 where a: "assignGameMaster u True w = (s2, w2)"
        by (cases "assignGameMaster u True w")
      have s2: "s2 = assignedDoc u" using assign_fst [of u True w] a by simp
      have w2: "store w2 = store w" "activeTimers w2 = activeTimers w"
        "pendingTimers w2 = pendingTimers w" "nextTimerId w2 = nextTimerId w"
        "endedLog w2 = endedLog w"
        using assign_world [of u True w] a by simp_all
      have v2: "validSession s2" using vu by (simp add: s2)
      show ?thesis
      proof (cases "status s = InProgress")
        case False
        then have "status s2 \<noteq> InProgress" by (simp add: s2 u_def)
        then show ?thesis
          using Some gm False us gu a v2 w2
          by (simp add: disconnectSession_def disconnectedDoc_def endsRound_def Let_def
              save_def u_def [symmetric] s2 [symmetric])
      next
        case True
        then have st2: "status s2 = InProgress" by (simp add: s2 u_def)
        have id2: "sessionId s2 = sessionId s" by (simp add: s2 u_def)
        define w3 where "w3 = emit (ToRoom (sessionId s))
            (GameEnded Timeout None (currentAnswer s) (players u))
            (clearGameTimer (sessionId s) w2)"
        have f3: "findBySessionId (sessionId s) w3 = Some s"
          using fs w2(1) by (simp add: w3_def findBySessionId_def)
        have r: "store (rotateGameMaster (sessionId s) now w3) =
            replaceDoc (rotatedDoc now s) (store w)"
          using rotate_world(1) [OF f3 v, of now] w2(1) by (simp add: w3_def)
        note r' = r [unfolded w3_def]
        have "length (players s2) = length (players s)" by (simp add: s2 u_def)
        then have ne2: "players s2 \<noteq> []" using ne by auto
        have v3: "validSession (s2\<lparr>status := Ended\<rparr>)"
          using v2 ne2 by (simp add: validSession_def)
        have tw: "replaceDoc (s2\<lparr>status := Ended, updatedAt := now\<rparr>)
            (replaceDoc (rotatedDoc now s) (store w)) =
            replaceDoc (s2\<lparr>status := Ended, updatedAt := now\<rparr>) (store w)"
          by (rule replaceDoc_twice) (simp add: id2)
        have ca: "currentAnswer s2 = currentAnswer s" "players s2 = players u"
          by (simp_all add: s2 u_def)
        show ?thesis
          using Some gm True us gu a st2 id2 v3 r' tw ca w2
          by (simp add: disconnectSession_def disconnectedDoc_def endsRound_def Let_def
              save_def u_def [symmetric] s2 [symmetric]
              pendingTimers_clearGameTimer split: option.splits)
      qed
    qed
  qed
  then show "snd (disconnectSession sock now s w) = True"
    and "store (fst (disconnectSession sock now s w)) =
           replaceDoc (disconnectedDoc sock now s) (store w)"
    and "activeTimers (fst (disconnectSession sock now s w)) =
           (if endsRound sock s then (activeTimers w)(sessionId s := None) else activeTimers w)"
    and "pendingTimers (fst (disconnectSession sock now s w)) =
           (if endsRound sock s then pendingTimers (clearGameTimer (sessionId s) w)
            else pendingTimers w)"
    and "nextTimerId (fst (disconnectSession sock now s w)) = nextTimerId w"
    and "endedLog (fst (disconnectSession sock now s w)) =
           endedLog w @
             (if endsRound sock s
              then [(ToRoom (sessionId s),
                     GameEnded Timeout None (currentAnswer s) (players (unplugged sock now s)))]
              else [])"
    by (simp_all add: u_def)
qed

lemma disconnectedDoc_id [simp]: "sessionId (disconnectedDoc sock now s) = sessionId s"
  by (simp add: disconnectedDoc_def split: option.splits)

lemma validSession_disconnectedDoc:
  assumes "validSession s"
  shows "validSession (disconnectedDoc sock now s)"
proof (cases "findIndex (\<lambda>p. socketId p = sock) (players s)")
  case None
  then show ?thesis using assms by (simp add: disconnectedDoc_def)
next
  case (Some i)
  from findIndex_Some [OF Some] have "i < length (players s)" by simp
  then have "length (players (unplugged sock now s)) \<noteq> 0" by auto
  then have "players (unplugged sock now s) \<noteq> []" by (simp del: unplugged_fields)
  then have "validSession ((assignedDoc (unplugged sock now s))\<lparr>status := Ended\<rparr>)"
    using validSession_unplugged [OF assms, of sock now]
    by (simp add: validSession_def)
  then show ?thesis
    using Some validSession_unplugged [OF assms, of sock now]
    by (simp add: disconnectedDoc_def)
qed

lemma disconnectLoop_result:
  assumes "wfStore w" and "set ss \<subseteq> set (store w)" and "distinct (map sessionId ss)"
  shows "wfStore (disconnectLoop sock now ss w)
    \<and> (\<forall>k. findBySessionId k (disconnectLoop sock now ss w) =
          (case find (\<lambda>s. sessionId s = trim (toLowerCase k)) ss of
             Some s \<Rightarrow> Some (disconnectedDoc sock now s)
           | None \<Rightarrow> findBySessionId k w))
    \<and> (\<forall>x. activeTimers (disconnectLoop sock now ss w) x =
          (if \<exists>s \<in> set ss. endsRound sock s \<and> sessionId s = x then None
           else activeTimers w x))
    \<and> set (pendingTimers (disconnectLoop sock now ss w)) \<subseteq> set (pendingTimers w)
    \<and> (\<forall>s \<in> set ss. endsRound sock s \<longrightarrow>
          (\<forall>h. activeTimers w (sessionId s) = Some h \<longrightarrow>
             h \<notin> fst ` set (pendingTimers (disconnectLoop sock now ss w))))
    \<and> nextTimerId (disconnectLoop sock now ss w) = nextTimerId w
    \<and> endedLog (disconnectLoop sock now ss w) = endedLog w @ roundEndEvents sock now ss"
  using assms
proof (induction ss arbitrary: w)
  case Nil
  then show ?case by (simp add: roundEndEvents_def)
next
  case (Cons s ss)
  define w1 where "w1 = fst (disconnectSession sock now s w)"
  have mem: "s \<in> set (store w)" using Cons.prems(2) by simp
  note step = disconnectSession_step [OF Cons.prems(1) mem, of sock now, folded w1_def]
  have v: "validSession s" using Cons.prems(1) mem by (simp add: wfStore_def)
  have loop: "disconnectLoop sock now (s # ss) w = disconnectLoop sock now ss w1"
  proof -
    obtain x ok where p: "disconnectSession sock now s w = (x, ok)"
      by (cases "disconnectSession sock now s w")
    then have "ok = True" "x = w1"
      using disconnectSession_step(1) [OF Cons.prems(1) mem, of sock now] by (simp_all add: w1_def)
    then show ?thesis using p by simp
  qed
  have w1eq: "w1\<lparr>store := replaceDoc (disconnectedDoc sock now s) (store w)\<rparr> = w1"
    using step(2) by simp
  have wf1: "wfStore w1"
  proof -
    have "wfStore (w\<lparr>store := replaceDoc (disconnectedDoc sock now s) (store w)\<rparr>)"
      by (rule wfStore_replace [OF Cons.prems(1) mem validSession_disconnectedDoc [OF v]]) simp
    then show ?thesis using step(2) by (simp add: wfStore_def)
  qed
  have others: "sessionId d \<noteq> sessionId s" if "d \<in> set ss" for d
  proof -
    have "sessionId s \<notin> sessionId ` set ss" using Cons.prems(3) by simp
    then show ?thesis using that by (metis image_eqI)
  qed
  have sub1: "set ss \<subseteq> set (store w1)"
  proof
    fix d assume d: "d \<in> set ss"
    then have "d \<in> set (store w)" using Cons.prems(2) by auto
    then have "d \<in> set (replaceDoc (disconnectedDoc sock now s) (store w))"
      using in_replaceDoc_other [of d "store w" "disconnectedDoc sock now s"] others [OF d] by simp
    then show "d \<in> set (store w1)" using step(2) by simp
  qed
  have dist: "distinct (map sessionId ss)" using Cons.prems(3) by simp
  note ih = Cons.IH [OF wf1 sub1 dist]
  have f1: "findBySessionId k w1 =
      (if sessionId s = trim (toLowerCase k) then Some (disconnectedDoc sock now s)
       else findBySessionId k w)" for k
    using step(2) by (simp add: findBySessionId_def find_replaceDoc)
  have nf: "find (\<lambda>d. sessionId d = sessionId s) ss = None"
    using others by (auto simp: find_None_iff)
  have a: "\<forall>k. findBySessionId k (disconnectLoop sock now (s # ss) w) =
          (case find (\<lambda>s. sessionId s = trim (toLowerCase k)) (s # ss) of
             Some s \<Rightarrow> Some (disconnectedDoc sock now s)
           | None \<Rightarrow> findBySessionId k w)"
  proof
    fix k
    show "findBySessionId k (disconnectLoop sock now (s # ss) w) =
          (case find (\<lambda>s. sessionId s = trim (toLowerCase k)) (s # ss) of
             Some s \<Rightarrow> Some (disconnectedDoc sock now s)
           | None \<Rightarrow> findBySessionId k w)"
    proof (cases "sessionId s = trim (toLowerCase k)")
      case True
      then have "find (\<lambda>d. sessionId d = trim (toLowerCase k)) ss = None"
        using nf by simp
      then show ?thesis
        using ih True f1 [of k] by (simp add: loop del: disconnectLoop.simps)
    next
      case False
      then show ?thesis
        using ih f1 [of k] by (simp add: loop del: disconnectLoop.simps split: option.splits)
    qed
  qed
  have b: "\<forall>x. activeTimers (disconnectLoop sock now (s # ss) w) x =
          (if \<exists>d \<in> set (s # ss). endsRound sock d \<and> sessionId d = x then None
           else activeTimers w x)"
    using ih step(3) by (auto simp: loop simp del: disconnectLoop.simps)
  have c: "set (pendingTimers (disconnectLoop sock now (s # ss) w)) \<subseteq> set (pendingTimers w)"
  proof -
    have "set (pendingTimers w1) \<subseteq> set (pendingTimers w)"
      using step(4) by (auto simp: pendingTimers_clearGameTimer split: option.splits)
    then show ?thesis using ih by (auto simp: loop simp del: disconnectLoop.simps)
  qed
  have d: "\<forall>d \<in> set (s # ss). endsRound sock d \<longrightarrow>
          (\<forall>h. activeTimers w (sessionId d) = Some h \<longrightarrow>
             h \<notin> fst ` set (pendingTimers (disconnectLoop sock now (s # ss) w)))"
  proof (intro ballI impI allI)
    fix d h
    assume d: "d \<in> set (s # ss)" and e: "endsRound sock d"
      and h: "activeTimers w (sessionId d) = Some h"
    have sub: "set (pendingTimers (disconnectLoop sock now ss w1)) \<subseteq> set (pendingTimers w1)"
      using ih by simp
    show "h \<notin> fst ` set (pendingTimers (disconnectLoop sock now (s # ss) w))"
    proof (cases "d = s")
      case True
      then have "h \<notin> fst ` set (pendingTimers w1)"
        using step(4) e h by (auto simp: pendingTimers_clearGameTimer)
      then show ?thesis using sub by (auto simp: loop simp del: disconnectLoop.simps)
    next
      case False
      then have ds: "d \<in> set ss" using d by simp
      have "activeTimers w1 (sessionId d) = Some h"
        using step(3) h others [OF ds] by simp
      then show ?thesis using ih ds e by (simp add: loop del: disconnectLoop.simps)
    qed
  qed
  have e: "nextTimerId (disconnectLoop sock now (s # ss) w) = nextTimerId w"
    using ih step(5) by (simp add: loop del: disconnectLoop.simps)
  have f: "endedLog (disconnectLoop sock now (s # ss) w) =
      endedLog w @ roundEndEvents sock now (s # ss)"
    using ih step(6) by (simp add: loop roundEndEvents_def del: disconnectLoop.simps)
  have g: "wfStore (disconnectLoop sock now (s # ss) w)"
    using ih by (simp add: loop del: disconnectLoop.simps)
  from a b c d e f g show ?case by blast
qed







lemma norm_abc12: "trim (toLowerCase ''abc12'') = ''abc12''"
  by code_simp

lemma roundStarted_session: "findBySessionId ''abc12'' roundStarted = Some roundSession"
  by (simp add: findBySessionId_def norm_abc12 roundStarted_def roundSession_def)

lemma roundSession_valid: "validSession roundSession"
  by (simp add: validSession_def validPlayer_def roundSession_def)

lemma roundReady_session: "findBySessionId ''abc12'' roundReady = Some readySession"
  by (simp add: findBySessionId_def norm_abc12 roundReady_def readySession_def roundSession_def)

lemma readySession_valid: "validSession readySession"
  by (simp add: validSession_def validPlayer_def readySession_def roundSession_def)

lemma roundEnded_session: "findBySessionId ''abc12'' roundEnded = Some endedSession"
  by (simp add: findBySessionId_def norm_abc12 roundEnded_def endedSession_def)

lemma endedSession_valid: "validSession endedSession"
  by (simp add: validSession_def validPlayer_def endedSession_def)

lemma trim_examples:
  "trim ''abc12'' = ''abc12''" "toLowerCase ''abc12'' = ''abc12''"
  "trim ''Bob'' = ''Bob''" "trim ''Cy'' = ''Cy''"
  by code_simp+

lemma trim_examples2:
  "trim ''Ann'' = ''Ann''" "trim '' ABC12 '' = ''ABC12''" "toLowerCase ''ABC12'' = ''abc12''"
  by code_simp+

lemma lobby_sorted:
  "sortedConnected lobbySession =
     [(1, players lobbySession ! 1), (2, players lobbySession ! 2), (0, players lobbySession ! 0)]"
  by (simp add: sortedConnected_def connectedPlayers_def sortBy_def compareGM_def enumerate_eq_zip
      lobbySession_def upt_rec)

lemma lobby_select: "selectNext lobbySession = Some (1, players lobbySession ! 1)"
  unfolding selectNext_def Let_def lobby_sorted
  by (simp add: lobbySession_def)


lemma roundReady_wf: "wfStore roundReady"
  using readySession_valid
  by (simp add: wfStore_def roundReady_def) (simp add: readySession_def roundSession_def norm_abc12)

section \<open>The claims\<close>

text \<open>
  Claim C1, as the code has it. \<^verbatim>\<open>handleStartNextRound\<close> checks the caller and
  not the status: called by the game master it is accepted in every status, sets
  the status to \<open>Waiting\<close>, clears question, answer, winner and start time and
  resets every player's attempts to 0, and leaves the timers alone; called by
  anyone else it only answers the caller with an error.
\<close>

theorem start_next_round_effect:
  assumes found: "findBySessionId sid w = Some s"
    and valid: "validSession s"
  shows "(gameMasterId s = Some sock \<longrightarrow>
            (let w' = handleStartNextRound sock sid now w
             in findBySessionId sid w' =
                  Some (s\<lparr>status := Waiting, currentQuestion := None, currentAnswer := None,
                          winner := None, gameStartTime := None,
                          players := map (\<lambda>p. p\<lparr>attempts := 0\<rparr>) (players s),
                          updatedAt := now\<rparr>)
                \<and> outbox w' = outbox w @
                     [(ToRoom sid, NextRoundStarting (Some sock)
                         (map_option username
                            (find (\<lambda>p. socketId p = sock)
                               (map (\<lambda>p. p\<lparr>attempts := 0\<rparr>) (players s)))))]
                \<and> activeTimers w' = activeTimers w
                \<and> pendingTimers w' = pendingTimers w))
       \<and> (gameMasterId s \<noteq> Some sock \<longrightarrow>
            handleStartNextRound sock sid now w =
              emit (ToSocket sock) (Error ''Only game master can start the next round'') w)"
proof -
  define s1 where "s1 = s\<lparr>status := Waiting, currentQuestion := None, currentAnswer := None,
      winner := None, gameStartTime := None,
      players := map (\<lambda>p. p\<lparr>attempts := 0\<rparr>) (players s)\<rparr>"
  have v1: "validSession s1"
    using validSession_reset [OF valid] by (simp add: s1_def validSession_def)
  have sid: "sessionId s = trim (toLowerCase sid)" by (rule findBySessionId_sessionId [OF found])
  have sock: "(\<lambda>p. Some (socketId p) = Some sock) = (\<lambda>p. socketId p = sock)" by auto
  show ?thesis
    using found v1 sid unfolding s1_def
    by (auto simp: handleStartNextRound_def save_def Let_def findBySessionId_replace sock)
qed


theorem start_next_round_effect_witness:
  "findBySessionId ''abc12'' (handleStartNextRound ''p'' ''abc12'' 600 roundEnded) =
     Some (endedSession\<lparr>status := Waiting, currentQuestion := None, currentAnswer := None,
             winner := None, gameStartTime := None,
             players := map (\<lambda>p. p\<lparr>attempts := 0\<rparr>) (players endedSession),
             updatedAt := 600\<rparr>)
   \<and> handleStartNextRound ''g'' ''abc12'' 600 roundEnded =
       emit (ToSocket ''g'') (Error ''Only game master can start the next round'') roundEnded"
proof -
  have g: "gameMasterId endedSession = Some ''p''" "gameMasterId endedSession \<noteq> Some ''g''"
    by (simp_all add: endedSession_def)
  from start_next_round_effect [OF roundEnded_session endedSession_valid, of "''p''" 600]
    start_next_round_effect [OF roundEnded_session endedSession_valid, of "''g''" 600] g
  show ?thesis by (simp add: Let_def)
qed

text \<open>
  Claim C1 as stated fails: in a session that is in progress the game master's
  \<^verbatim>\<open>start_next_round\<close> is not rejected; it puts the session back to \<open>Waiting\<close>.
\<close>

theorem start_next_round_any_status_counterexample:
  "findBySessionId ''abc12'' roundStarted = Some roundSession
   \<and> status roundSession = InProgress
   \<and> gameMasterId roundSession = Some ''g''
   \<and> map status (store (handleStartNextRound ''g'' ''abc12'' 500 roundStarted)) = [Waiting]
   \<and> outbox (handleStartNextRound ''g'' ''abc12'' 500 roundStarted) =
        [(ToRoom ''abc12'', NextRoundStarting (Some ''g'') (Some ''Ann''))]"
  by (simp add: handleStartNextRound_def roundStarted_session save_def Let_def)
     (simp add: roundSession_def roundStarted_def validSession_def validPlayer_def)

text \<open>
  Claim C2, as the code has it. \<^verbatim>\<open>handleStartGame\<close> succeeds when the caller is
  the game master, two players are connected, question and answer are set and
  the status is not \<open>InProgress\<close>: the attempts are reset, the winner cleared,
  the status becomes \<open>InProgress\<close>, the start time is \<open>now\<close>, the timer of the
  session id is replaced by a new one of 60000 ms and \<^verbatim>\<open>game_started\<close> goes to
  the room. In each other case the caller alone gets the error of the first
  check that fails, and nothing else changes.
\<close>

theorem start_round_effect:
  assumes found: "findBySessionId sid w = Some s"
    and valid: "validSession s"
  shows "(gameMasterId s = Some sock \<and> 2 \<le> length (filter isConnected (players s))
            \<and> truthy (currentQuestion s) \<and> truthy (currentAnswer s)
            \<and> status s \<noteq> InProgress \<longrightarrow>
            (let w' = handleStartGame sock sid now w
             in findBySessionId sid w' =
                  Some (s\<lparr>players := map (\<lambda>p. p\<lparr>attempts := 0\<rparr>) (players s),
                          status := InProgress, gameStartTime := Some now, winner := None,
                          updatedAt := now\<rparr>)
                \<and> activeTimers w' sid = Some (nextTimerId w)
                \<and> pendingTimers w' =
                     pendingTimers (clearGameTimer sid w) @ [(nextTimerId w, 60000, sid)]
                \<and> outbox w' = outbox w @
                     [(ToRoom sid, GameStarted (currentQuestion s) 60),
                      (ToRoom sock, GameMasterNotification ''game_started''
                         (Text ''Game started! Players are now guessing...''))]))
       \<and> (gameMasterId s \<noteq> Some sock \<longrightarrow>
            handleStartGame sock sid now w =
              emit (ToSocket sock) (Error ''Only game master can start the game'') w)
       \<and> (gameMasterId s = Some sock \<and> length (filter isConnected (players s)) < 2 \<longrightarrow>
            handleStartGame sock sid now w =
              emit (ToSocket sock)
                (Error ''Need at least 2 connected players to start the game'') w)
       \<and> (gameMasterId s = Some sock \<and> 2 \<le> length (filter isConnected (players s))
            \<and> \<not> (truthy (currentQuestion s) \<and> truthy (currentAnswer s)) \<longrightarrow>
            handleStartGame sock sid now w =
              emit (ToSocket sock) (Error ''Please set a question and answer first'') w)
       \<and> (gameMasterId s = Some sock \<and> 2 \<le> length (filter isConnected (players s))
            \<and> truthy (currentQuestion s) \<and> truthy (currentAnswer s)
            \<and> status s = InProgress \<longrightarrow>
            handleStartGame sock sid now w =
              emit (ToSocket sock) (Error ''Game is already in progress'') w)"
proof -
  define s1 where "s1 = s\<lparr>players := map (\<lambda>p. p\<lparr>attempts := 0\<rparr>) (players s),
      status := InProgress, gameStartTime := Some now, winner := None\<rparr>"
  have sid: "sessionId s = trim (toLowerCase sid)" by (rule findBySessionId_sessionId [OF found])
  have v1: "2 \<le> length (filter isConnected (players s)) \<Longrightarrow> validSession s1"
  proof -
    assume "2 \<le> length (filter isConnected (players s))"
    then have "players s \<noteq> []" by auto
    then show ?thesis
      using validSession_reset [OF valid] by (simp add: s1_def validSession_def)
  qed
  have a: "gameMasterId s \<noteq> Some sock \<longrightarrow>
      handleStartGame sock sid now w =
        emit (ToSocket sock) (Error ''Only game master can start the game'') w"
    using found by (simp add: handleStartGame_def)
  have b: "gameMasterId s = Some sock \<and> length (filter isConnected (players s)) < 2 \<longrightarrow>
      handleStartGame sock sid now w =
        emit (ToSocket sock) (Error ''Need at least 2 connected players to start the game'') w"
    using found by (simp add: handleStartGame_def)
  have c: "gameMasterId s = Some sock \<and> 2 \<le> length (filter isConnected (players s))
      \<and> \<not> (truthy (currentQuestion s) \<and> truthy (currentAnswer s)) \<longrightarrow>
      handleStartGame sock sid now w =
        emit (ToSocket sock) (Error ''Please set a question and answer first'') w"
    using found by (auto simp: handleStartGame_def)
  have d: "gameMasterId s = Some sock \<and> 2 \<le> length (filter isConnected (players s))
      \<and> truthy (currentQuestion s) \<and> truthy (currentAnswer s) \<and> status s = InProgress \<longrightarrow>
      handleStartGame sock sid now w =
        emit (ToSocket sock) (Error ''Game is already in progress'') w"
    using found by (auto simp: handleStartGame_def)
  have e: "gameMasterId s = Some sock \<and> 2 \<le> length (filter isConnected (players s))
      \<and> truthy (currentQuestion s) \<and> truthy (currentAnswer s) \<and> status s \<noteq> InProgress \<longrightarrow>
      (let w' = handleStartGame sock sid now w
       in findBySessionId sid w' = Some (s1\<lparr>updatedAt := now\<rparr>)
          \<and> activeTimers w' sid = Some (nextTimerId w)
          \<and> pendingTimers w' =
               pendingTimers (clearGameTimer sid w) @ [(nextTimerId w, 60000, sid)]
          \<and> outbox w' = outbox w @
               [(ToRoom sid, GameStarted (currentQuestion s) 60),
                (ToRoom sock, GameMasterNotification ''game_started''
                   (Text ''Game started! Players are now guessing...''))])"
  proof (intro impI)
    assume g: "gameMasterId s = Some sock \<and> 2 \<le> length (filter isConnected (players s))
      \<and> truthy (currentQuestion s) \<and> truthy (currentAnswer s) \<and> status s \<noteq> InProgress"
    then have v: "validSession s1" using v1 by simp
    have n: "\<not> length (filter isConnected (players s)) < 2" using g by simp
    show "let w' = handleStartGame sock sid now w
       in findBySessionId sid w' = Some (s1\<lparr>updatedAt := now\<rparr>)
          \<and> activeTimers w' sid = Some (nextTimerId w)
          \<and> pendingTimers w' =
               pendingTimers (clearGameTimer sid w) @ [(nextTimerId w, 60000, sid)]
          \<and> outbox w' = outbox w @
               [(ToRoom sid, GameStarted (currentQuestion s) 60),
                (ToRoom sock, GameMasterNotification ''game_started''
                   (Text ''Game started! Players are now guessing...''))]"
      using found g n v sid unfolding s1_def
      by (simp add: handleStartGame_def save_def Let_def findBySessionId_replace
          pendingTimers_clearGameTimer split: option.splits)
  qed
  from a b c d e show ?thesis unfolding s1_def by simp
qed

theorem start_round_effect_witness:
  "map status (store (handleStartGame ''g'' ''abc12'' 400 roundReady)) = [InProgress]
   \<and> activeTimers (handleStartGame ''g'' ''abc12'' 400 roundReady) ''abc12'' = Some 0
   \<and> pendingTimers (handleStartGame ''g'' ''abc12'' 400 roundReady) = [(0, 60000, ''abc12'')]
   \<and> handleStartGame ''p'' ''abc12'' 400 roundReady =
       emit (ToSocket ''p'') (Error ''Only game master can start the game'') roundReady
   \<and> handleStartGame ''g'' ''abc12'' 450 roundStarted =
       emit (ToSocket ''g'') (Error ''Game is already in progress'') roundStarted"
proof -
  have g: "gameMasterId readySession = Some ''g''" "gameMasterId readySession \<noteq> Some ''p''"
    "2 \<le> length (filter isConnected (players readySession))"
    "truthy (currentQuestion readySession)" "truthy (currentAnswer readySession)"
    "status readySession \<noteq> InProgress"
    by (simp_all add: readySession_def roundSession_def truthy_def)
  have h: "gameMasterId roundSession = Some ''g''"
    "2 \<le> length (filter isConnected (players roundSession))"
    "truthy (currentQuestion roundSession)" "truthy (currentAnswer roundSession)"
    "status roundSession = InProgress"
    by (simp_all add: roundSession_def truthy_def)
  have st: "map status (store w) = [InProgress]"
    if "findBySessionId ''abc12'' w = Some s" "status s = InProgress" "length (store w) = 1"
    for w s
    using that by (cases "store w") (auto simp: findBySessionId_def split: if_splits)
  have len: "length (store (handleStartGame ''g'' ''abc12'' 400 roundReady)) = 1"
    using roundReady_session readySession_valid g
    by (simp add: handleStartGame_def save_def Let_def)
       (simp add: roundReady_def readySession_def roundSession_def)
  have pt: "pendingTimers (clearGameTimer ''abc12'' roundReady) = []" "nextTimerId roundReady = 0"
    by (simp_all add: pendingTimers_clearGameTimer roundReady_def)
  from start_round_effect [OF roundReady_session readySession_valid, of "''g''" 400] g
  have 1: "map status (store (handleStartGame ''g'' ''abc12'' 400 roundReady)) = [InProgress]
     \<and> activeTimers (handleStartGame ''g'' ''abc12'' 400 roundReady) ''abc12'' = Some 0
     \<and> pendingTimers (handleStartGame ''g'' ''abc12'' 400 roundReady) = [(0, 60000, ''abc12'')]"
    using st [OF _ _ len] pt by (simp add: Let_def)
  from start_round_effect [OF roundReady_session readySession_valid, of "''p''" 400] g
  have 2: "handleStartGame ''p'' ''abc12'' 400 roundReady =
       emit (ToSocket ''p'') (Error ''Only game master can start the game'') roundReady"
    by simp
  from start_round_effect [OF roundStarted_session roundSession_valid, of "''g''" 450] h
  have 3: "handleStartGame ''g'' ''abc12'' 450 roundStarted =
       emit (ToSocket ''g'') (Error ''Game is already in progress'') roundStarted"
    by simp
  from 1 2 3 show ?thesis by simp
qed
text \<open>
  Claim C2 as stated fails: from the status \<open>Ended\<close>, with the question and
  answer of the finished round still stored, \<^verbatim>\<open>start_game\<close> is accepted.
\<close>

theorem start_round_from_ended_counterexample:
  "findBySessionId ''abc12'' roundEnded = Some endedSession
   \<and> status endedSession = Ended
   \<and> map status (store (handleStartGame ''p'' ''abc12'' 600 roundEnded)) = [InProgress]
   \<and> activeTimers (handleStartGame ''p'' ''abc12'' 600 roundEnded) ''abc12'' = Some 1
   \<and> outbox (handleStartGame ''p'' ''abc12'' 600 roundEnded) =
        [(ToRoom ''abc12'', GameStarted (Some ''capital of france'') 60),
         (ToRoom ''p'', GameMasterNotification ''game_started''
            (Text ''Game started! Players are now guessing...''))]"
  by (simp add: handleStartGame_def roundEnded_session save_def Let_def)
     (simp add: endedSession_def roundEnded_def validSession_def validPlayer_def truthy_def)

text \<open>
  Claim C3, at an input where the code departs from it. In the lobby Ann, the
  game master, disconnects; \<^verbatim>\<open>handleDisconnect\<close> reassigns through
  \<^verbatim>\<open>assignGameMaster\<close>, which makes Bob the game master and leaves his
  \<open>lastGameMasterTime\<close> empty. \<^verbatim>\<open>rotateGameMaster\<close> on the same collection
  makes the same choice and writes the time.
\<close>

theorem reassignment_leaves_time_unset:
  "(\<exists>s'. findBySessionId ''abc12'' (handleDisconnect ''g'' 350 roundReady) = Some s'
       \<and> gameMasterId readySession = Some ''g''
       \<and> gameMasterId s' = Some ''p''
       \<and> map socketId (players s') = [''g'', ''p'']
       \<and> map isConnected (players s') = [False, True]
       \<and> map lastGameMasterTime (players s') = [Some 100, None])
   \<and> (\<exists>s'. findBySessionId ''abc12'' (rotateGameMaster ''abc12'' 350 roundReady) = Some s'
       \<and> gameMasterId s' = Some ''p''
       \<and> map lastGameMasterTime (players s') = [Some 100, Some 350])"
proof -
  have mem: "readySession \<in> set (store roundReady)" by (simp add: roundReady_def)
  have ss: "filter (\<lambda>s. \<exists>p \<in> set (players s). socketId p = ''g'') (store roundReady) = [readySession]"
    by (simp add: roundReady_def readySession_def roundSession_def)
  have id: "sessionId readySession = ''abc12''" by (simp add: readySession_def roundSession_def)
  have sub: "set [readySession] \<subseteq> set (store roundReady)" using mem by simp
  have "findBySessionId ''abc12'' (disconnectLoop ''g'' 350 [readySession] roundReady) =
      Some (disconnectedDoc ''g'' 350 readySession)"
    using disconnectLoop_result [OF roundReady_wf sub, of "''g''" 350] id
    by (simp add: norm_abc12 del: disconnectLoop.simps)
  then have a: "findBySessionId ''abc12'' (handleDisconnect ''g'' 350 roundReady) =
      Some (disconnectedDoc ''g'' 350 readySession)"
    by (simp add: handleDisconnect_def ss del: disconnectLoop.simps)
  have u: "unplugged ''g'' 350 readySession =
      readySession\<lparr>players :=
        [\<lparr>socketId = ''g'', username = ''Ann'', score = 0, attempts = 0,
          isConnected = False, lastGameMasterTime = Some 100, lastActivity = 350\<rparr>,
         \<lparr>socketId = ''p'', username = ''Bob'', score = 0, attempts = 0,
          isConnected = True, lastGameMasterTime = None, lastActivity = 200\<rparr>]\<rparr>"
    by (simp add: unplugged_def readySession_def roundSession_def)
  have d: "disconnectedDoc ''g'' 350 readySession =
      (unplugged ''g'' 350 readySession)\<lparr>gameMasterId := Some ''p'',
         requiresGameMaster := False, updatedAt := 350\<rparr>"
    unfolding disconnectedDoc_def assignedDoc_def u
    by (simp add: readySession_def roundSession_def sortedConnected_def connectedPlayers_def
        sortBy_def compareGM_def enumerate_eq_zip upt_rec)
  have sel: "selectNext readySession = Some (1, players readySession ! 1)"
    by (simp add: selectNext_def Let_def sortedConnected_def connectedPlayers_def sortBy_def
        compareGM_def enumerate_eq_zip upt_rec readySession_def roundSession_def)
  have r: "findBySessionId ''abc12'' (rotateGameMaster ''abc12'' 350 roundReady) =
      Some (rotatedDoc 350 readySession)"
    using rotate_world(1) [OF roundReady_session readySession_valid, of 350] id
    by (simp add: findBySessionId_def find_replaceDoc norm_abc12)
  have rd: "gameMasterId (rotatedDoc 350 readySession) = Some ''p''"
    "map lastGameMasterTime (players (rotatedDoc 350 readySession)) = [Some 100, Some 350]"
    by (simp_all add: rotatedDoc_def sel) (simp_all add: readySession_def roundSession_def)
  have g: "gameMasterId readySession = Some ''g''" by (simp add: readySession_def roundSession_def)
  show ?thesis
    using a r rd g by (simp add: d u)
qed



text \<open>
  Claim C7. \<^verbatim>\<open>handleJoinSession\<close> on a session it finds, with a name that is not
  blank: when a player of the session has the trimmed name, that player's entry
  gets the caller's socket id, \<open>isConnected = True\<close> and the activity time, and
  nothing else in the player list changes, so score, attempts and the list of
  names are as before; when no player has the name, the join is rejected while
  the session is in progress, and otherwise a new player is appended, and names
  that were distinct stay distinct. (The name is at most 20 characters and the
  socket id is not empty: the validators of the schema.)
\<close>

theorem join_reconnects_or_appends:
  assumes nonblank: "trim usernameArg \<noteq> []" "trim sessionIdArg \<noteq> []"
    and found: "findBySessionId (toLowerCase (trim sessionIdArg)) w = Some s"
    and valid: "validSession s"
    and sock: "sock \<noteq> []"
  shows "let w' = handleJoinSession sock usernameArg sessionIdArg now w;
             name = trim usernameArg
         in (\<forall>i. findIndex (\<lambda>p. username p = name) (players s) = Some i \<longrightarrow>
               (\<exists>s'. findBySessionId (toLowerCase (trim sessionIdArg)) w' = Some s'
                  \<and> players s' = (players s)[i := (players s ! i)
                        \<lparr>socketId := sock, isConnected := True, lastActivity := now\<rparr>]
                  \<and> score (players s' ! i) = score (players s ! i)
                  \<and> attempts (players s' ! i) = attempts (players s ! i)
                  \<and> map username (players s') = map username (players s)))
          \<and> (findIndex (\<lambda>p. username p = name) (players s) = None
                \<and> status s = InProgress \<longrightarrow>
               w' = emit (ToSocket sock)
                      (Error ''Game is in progress. Please wait for the next round.'') w)
          \<and> (findIndex (\<lambda>p. username p = name) (players s) = None
                \<and> status s \<noteq> InProgress \<and> length name \<le> 20 \<longrightarrow>
               (\<exists>s'. findBySessionId (toLowerCase (trim sessionIdArg)) w' = Some s'
                  \<and> players s' = players s @ [newPlayer sock name None now]
                  \<and> (distinct (map username (players s)) \<longrightarrow>
                        distinct (map username (players s')))))"
proof -
  define name where "name = trim usernameArg"
  define k where "k = toLowerCase (trim sessionIdArg)"
  define w' where "w' = handleJoinSession sock usernameArg sessionIdArg now w"
  have re: "\<exists>s'. findBySessionId k w' = Some s'
      \<and> players s' = (players s)[i := (players s ! i)
            \<lparr>socketId := sock, isConnected := True, lastActivity := now\<rparr>]
      \<and> score (players s' ! i) = score (players s ! i)
      \<and> attempts (players s' ! i) = attempts (players s ! i)
      \<and> map username (players s') = map username (players s)"
    if fi: "findIndex (\<lambda>p. username p = name) (players s) = Some i" for i
  proof -
    from findIndex_Some [OF fi] have i: "i < length (players s)" by simp
    from join_existing_player [OF nonblank found valid sock fi [unfolded name_def], of now]
    obtain s' where s': "findBySessionId k w' = Some s'"
      "players s' = (players s)[i := (players s ! i)
            \<lparr>socketId := sock, isConnected := True, lastActivity := now\<rparr>]"
      by (auto simp: k_def w'_def)
    have "map username (players s') = map username (players s)"
      using i s'(2) by (simp add: map_update list_update_same_conv)
    then show ?thesis using s' i by simp
  qed
  have rej: "w' = emit (ToSocket sock)
      (Error ''Game is in progress. Please wait for the next round.'') w"
    if "findIndex (\<lambda>p. username p = name) (players s) = None" "status s = InProgress"
    using nonblank found that
    by (simp add: w'_def handleJoinSession_def Let_def name_def [symmetric])
  have app: "\<exists>s'. findBySessionId k w' = Some s'
      \<and> players s' = players s @ [newPlayer sock name None now]
      \<and> (distinct (map username (players s)) \<longrightarrow> distinct (map username (players s')))"
    if fi: "findIndex (\<lambda>p. username p = name) (players s) = None"
      and st: "status s \<noteq> InProgress" and ln: "length name \<le> 20"
  proof -
    from join_new_player [OF nonblank found valid sock fi [unfolded name_def] st
        ln [unfolded name_def], of now]
    obtain s' where s': "findBySessionId k w' = Some s'"
      "players s' = players s @ [newPlayer sock name None now]"
      by (auto simp: k_def w'_def name_def)
    have "distinct (map username (players s)) \<longrightarrow> distinct (map username (players s'))"
      using findIndex_None_set [OF fi] s'(2) by (auto simp: newPlayer_def)
    then show ?thesis using s' by simp
  qed
  from re rej app show ?thesis
    unfolding Let_def name_def k_def w'_def by blast
qed

theorem join_reconnects_or_appends_witness:
  "(\<exists>s'. findBySessionId ''abc12'' (handleJoinSession ''q'' ''Bob'' ''abc12'' 450 roundStarted) = Some s'
       \<and> players s' = (players roundSession)[1 := (players roundSession ! 1)
             \<lparr>socketId := ''q'', isConnected := True, lastActivity := 450\<rparr>]
       \<and> score (players s' ! 1) = 0
       \<and> map username (players s') = [''Ann'', ''Bob''])
   \<and> handleJoinSession ''c'' ''Cy'' ''abc12'' 450 roundStarted =
       emit (ToSocket ''c'') (Error ''Game is in progress. Please wait for the next round.'')
         roundStarted
   \<and> (\<exists>s'. findBySessionId ''abc12'' (handleJoinSession ''c'' ''Cy'' ''abc12'' 250 roundReady) = Some s'
       \<and> map username (players s') = [''Ann'', ''Bob'', ''Cy''])"
proof -
  have n: "trim ''Bob'' \<noteq> []" "trim ''Cy'' \<noteq> []" "trim ''abc12'' \<noteq> []"
    "''q'' \<noteq> []" "''c'' \<noteq> []"
    by (simp_all add: trim_examples)
  have f1: "findBySessionId (toLowerCase (trim ''abc12'')) roundStarted = Some roundSession"
    by (simp add: trim_examples roundStarted_session)
  have f2: "findBySessionId (toLowerCase (trim ''abc12'')) roundReady = Some readySession"
    by (simp add: trim_examples roundReady_session)
  have i1: "findIndex (\<lambda>p. username p = ''Bob'') (players roundSession) = Some 1"
    "findIndex (\<lambda>p. username p = ''Cy'') (players roundSession) = None"
    "findIndex (\<lambda>p. username p = ''Cy'') (players readySession) = None"
    "status roundSession = InProgress" "status readySession \<noteq> InProgress"
    "score (players roundSession ! 1) = 0"
    "map username (players roundSession) = [''Ann'', ''Bob'']"
    "map username (players readySession) = [''Ann'', ''Bob'']"
    by (simp_all add: roundSession_def readySession_def)
  from join_reconnects_or_appends [OF n(1) n(3) f1 roundSession_valid n(4), where now = 450] i1
  have a: "\<exists>s'. findBySessionId ''abc12'' (handleJoinSession ''q'' ''Bob'' ''abc12'' 450 roundStarted) = Some s'
       \<and> players s' = (players roundSession)[1 := (players roundSession ! 1)
             \<lparr>socketId := ''q'', isConnected := True, lastActivity := 450\<rparr>]
       \<and> score (players s' ! 1) = 0
       \<and> map username (players s') = [''Ann'', ''Bob'']"
    by (auto simp: Let_def trim_examples)
  from join_reconnects_or_appends [OF n(2) n(3) f1 roundSession_valid n(5), where now = 450] i1
  have b: "handleJoinSession ''c'' ''Cy'' ''abc12'' 450 roundStarted =
       emit (ToSocket ''c'') (Error ''Game is in progress. Please wait for the next round.'')
         roundStarted"
    by (simp add: Let_def trim_examples)
  from join_reconnects_or_appends [OF n(2) n(3) f2 readySession_valid n(5), where now = 250] i1
  have c: "\<exists>s'. findBySessionId ''abc12'' (handleJoinSession ''c'' ''Cy'' ''abc12'' 250 roundReady) = Some s'
       \<and> map username (players s') = [''Ann'', ''Bob'', ''Cy'']"
    by (auto simp: Let_def trim_examples newPlayer_def)
  from a b c show ?thesis by simp
qed



text \<open>
  Claim C9. \<^verbatim>\<open>handleCreateSession\<close>, when it creates the session, stores one
  player, the creator, whose \<open>lastGameMasterTime\<close> is the time of creation;
  \<^verbatim>\<open>handleJoinSession\<close> appends a new player with no such time. In the order
  both selectors sort the connected players in, nobody with a time stands before
  a player without one, and the choice of \<^verbatim>\<open>rotateGameMaster\<close> has no time
  whenever some connected player other than the current game master has none:
  players who joined and were never game master go before the creator.
\<close>

theorem creator_sorts_after_joiners:
  "(trim usernameArg \<noteq> [] \<and> trim sessionIdArg \<noteq> []
      \<and> findBySessionId (toLowerCase (trim sessionIdArg)) w = None
      \<and> 3 \<le> length (trim sessionIdArg) \<and> length (trim sessionIdArg) \<le> 20
      \<and> length (trim usernameArg) \<le> 20 \<and> sock \<noteq> [] \<longrightarrow>
      (\<exists>s0. findBySessionId (toLowerCase (trim sessionIdArg))
               (handleCreateSession sock usernameArg sessionIdArg now w) = Some s0
         \<and> players s0 = [newPlayer sock (trim usernameArg) (Some now) now]
         \<and> map lastGameMasterTime (players s0) = [Some now]
         \<and> gameMasterId s0 = Some sock))
   \<and> (trim joinerArg \<noteq> [] \<and> trim joinIdArg \<noteq> []
      \<and> findBySessionId (toLowerCase (trim joinIdArg)) wj = Some sj \<and> validSession sj
      \<and> sockj \<noteq> [] \<and> findIndex (\<lambda>p. username p = trim joinerArg) (players sj) = None
      \<and> status sj \<noteq> InProgress \<and> length (trim joinerArg) \<le> 20 \<longrightarrow>
      (\<exists>s'. findBySessionId (toLowerCase (trim joinIdArg))
               (handleJoinSession sockj joinerArg joinIdArg nowj wj) = Some s'
         \<and> players s' = players sj @ [newPlayer sockj (trim joinerArg) None nowj]
         \<and> lastGameMasterTime (last (players s')) = None))
   \<and> (\<forall>i j. i < j \<and> j < length (sortedConnected s)
         \<and> lastGameMasterTime (snd (sortedConnected s ! j)) = None \<longrightarrow>
         lastGameMasterTime (snd (sortedConnected s ! i)) = None)
   \<and> (\<forall>n p. selectNext s = Some n \<and> p \<in> set (players s) \<and> isConnected p
         \<and> Some (socketId p) \<noteq> gameMasterId s \<and> lastGameMasterTime p = None \<longrightarrow>
         lastGameMasterTime (snd n) = None)"
proof (intro conjI impI allI)
  assume a: "trim usernameArg \<noteq> [] \<and> trim sessionIdArg \<noteq> []
      \<and> findBySessionId (toLowerCase (trim sessionIdArg)) w = None
      \<and> 3 \<le> length (trim sessionIdArg) \<and> length (trim sessionIdArg) \<le> 20
      \<and> length (trim usernameArg) \<le> 20 \<and> sock \<noteq> []"
  define s0 where "s0 = \<lparr>sessionId = toLowerCase (trim sessionIdArg), requiresGameMaster = False,
         players = [newPlayer sock (trim usernameArg) (Some now) now],
         gameMasterId = Some sock, currentQuestion = None, currentAnswer = None,
         status = Waiting, winner = None, gameStartTime = None, createdAt = now,
         updatedAt = now\<rparr>"
  have st: "store (handleCreateSession sock usernameArg sessionIdArg now w) = store w @ [s0]"
    using create_session [of usernameArg sessionIdArg w sock now] a by (simp add: s0_def)
  have "find (\<lambda>d. sessionId d = toLowerCase (trim sessionIdArg)) (store w) = None"
    using a by (simp add: findBySessionId_def trim_toLowerCase)
  then have "findBySessionId (toLowerCase (trim sessionIdArg))
      (handleCreateSession sock usernameArg sessionIdArg now w) = Some s0"
    by (simp add: findBySessionId_def st trim_toLowerCase find_append s0_def)
  then show "\<exists>s0. findBySessionId (toLowerCase (trim sessionIdArg))
               (handleCreateSession sock usernameArg sessionIdArg now w) = Some s0
         \<and> players s0 = [newPlayer sock (trim usernameArg) (Some now) now]
         \<and> map lastGameMasterTime (players s0) = [Some now]
         \<and> gameMasterId s0 = Some sock"
    by (simp add: s0_def newPlayer_def)
next
  assume b: "trim joinerArg \<noteq> [] \<and> trim joinIdArg \<noteq> []
      \<and> findBySessionId (toLowerCase (trim joinIdArg)) wj = Some sj \<and> validSession sj
      \<and> sockj \<noteq> [] \<and> findIndex (\<lambda>p. username p = trim joinerArg) (players sj) = None
      \<and> status sj \<noteq> InProgress \<and> length (trim joinerArg) \<le> 20"
  from join_new_player [of joinerArg joinIdArg wj sj sockj nowj] b
  obtain s' where "findBySessionId (toLowerCase (trim joinIdArg))
               (handleJoinSession sockj joinerArg joinIdArg nowj wj) = Some s'"
    "players s' = players sj @ [newPlayer sockj (trim joinerArg) None nowj]"
    by auto
  then show "\<exists>s'. findBySessionId (toLowerCase (trim joinIdArg))
               (handleJoinSession sockj joinerArg joinIdArg nowj wj) = Some s'
         \<and> players s' = players sj @ [newPlayer sockj (trim joinerArg) None nowj]
         \<and> lastGameMasterTime (last (players s')) = None"
    by (simp add: newPlayer_def)
next
  fix i j
  assume "i < j \<and> j < length (sortedConnected s)
         \<and> lastGameMasterTime (snd (sortedConnected s ! j)) = None"
  then show "lastGameMasterTime (snd (sortedConnected s ! i)) = None"
    using noneFirst_nth [OF sortedConnected_noneFirst, of i j s] by blast
next
  fix n p
  assume "selectNext s = Some n \<and> p \<in> set (players s) \<and> isConnected p
         \<and> Some (socketId p) \<noteq> gameMasterId s \<and> lastGameMasterTime p = None"
  then show "lastGameMasterTime (snd n) = None"
    using selectNext_prefers_none [of s n p] by blast
qed

theorem creator_sorts_after_joiners_witness:
  "(\<exists>s0. findBySessionId ''abc12'' (handleCreateSession ''g'' ''Ann'' '' ABC12 '' 100 initialWorld) = Some s0
       \<and> map lastGameMasterTime (players s0) = [Some 100])
   \<and> (\<exists>s'. findBySessionId ''abc12'' (handleJoinSession ''c'' ''Cy'' ''abc12'' 250 roundReady) = Some s'
       \<and> lastGameMasterTime (last (players s')) = None)
   \<and> lastGameMasterTime (snd (sortedConnected lobbySession ! 0)) = None
   \<and> lastGameMasterTime (snd (sortedConnected lobbySession ! 1)) = None
   \<and> lastGameMasterTime (snd (sortedConnected lobbySession ! 2)) = Some 100
   \<and> (\<exists>n. selectNext lobbySession = Some n \<and> lastGameMasterTime (snd n) = None)"
proof -
  note inst = creator_sorts_after_joiners [where usernameArg = "''Ann''"
      and sessionIdArg = "'' ABC12 ''" and w = initialWorld and sock = "''g''" and now = 100
      and joinerArg = "''Cy''" and joinIdArg = "''abc12''" and wj = roundReady
      and sj = readySession and sockj = "''c''" and nowj = 250 and s = lobbySession]
  have c: "trim ''Ann'' \<noteq> [] \<and> trim '' ABC12 '' \<noteq> []
      \<and> findBySessionId (toLowerCase (trim '' ABC12 '')) initialWorld = None
      \<and> 3 \<le> length (trim '' ABC12 '') \<and> length (trim '' ABC12 '') \<le> 20
      \<and> length (trim ''Ann'') \<le> 20 \<and> ''g'' \<noteq> []"
    by (simp add: trim_examples2 findBySessionId_def initialWorld_def)
  have j: "trim ''Cy'' \<noteq> [] \<and> trim ''abc12'' \<noteq> []
      \<and> findBySessionId (toLowerCase (trim ''abc12'')) roundReady = Some readySession
      \<and> validSession readySession \<and> ''c'' \<noteq> []
      \<and> findIndex (\<lambda>p. username p = trim ''Cy'') (players readySession) = None
      \<and> status readySession \<noteq> InProgress \<and> length (trim ''Cy'') \<le> 20"
    by (simp add: trim_examples roundReady_session readySession_valid)
       (simp add: readySession_def roundSession_def)
  have o: "(0::nat) < 1 \<and> 1 < length (sortedConnected lobbySession)
      \<and> lastGameMasterTime (snd (sortedConnected lobbySession ! 1)) = None"
    by (simp add: lobby_sorted) (simp add: lobbySession_def)
  have t: "lastGameMasterTime (snd (sortedConnected lobbySession ! 2)) = Some 100"
    by (simp add: lobby_sorted) (simp add: lobbySession_def)
  have p: "selectNext lobbySession = Some (1, players lobbySession ! 1)
      \<and> players lobbySession ! 2 \<in> set (players lobbySession)
      \<and> isConnected (players lobbySession ! 2)
      \<and> Some (socketId (players lobbySession ! 2)) \<noteq> gameMasterId lobbySession
      \<and> lastGameMasterTime (players lobbySession ! 2) = None"
    by (simp add: lobby_select) (simp add: lobbySession_def)
  from inst c have 1: "\<exists>s0. findBySessionId ''abc12''
        (handleCreateSession ''g'' ''Ann'' '' ABC12 '' 100 initialWorld) = Some s0
       \<and> map lastGameMasterTime (players s0) = [Some 100]"
    by (auto simp: trim_examples2)
  from inst j have 2: "\<exists>s'. findBySessionId ''abc12''
        (handleJoinSession ''c'' ''Cy'' ''abc12'' 250 roundReady) = Some s'
       \<and> lastGameMasterTime (last (players s')) = None"
    by (auto simp: trim_examples)
  from inst o have 3: "lastGameMasterTime (snd (sortedConnected lobbySession ! 0)) = None"
    by blast
  from inst p have 4: "\<exists>n. selectNext lobbySession = Some n \<and> lastGameMasterTime (snd n) = None"
    by blast
  from 1 2 3 4 o t show ?thesis by blast
qed

text \<open>
  Claim C10. A guess that passes the guards of \<^verbatim>\<open>handleSubmitGuess\<close>, is wrong,
  and after which some connected player other than the game master still has
  attempts left, writes one document: the session with the guesser's attempts
  one higher and \<open>updatedAt\<close> set, everything else as it was. The timers stay,
  no \<^verbatim>\<open>game_ended\<close> is emitted, and the notifications are \<^verbatim>\<open>guess_result\<close>
  to the guesser's connection, with 3 minus the new count, a chat line to the
  room and a note to the game master.
\<close>

theorem wrong_guess_frame:
  assumes nonblank: "trim guess \<noteq> []"
    and found: "findBySessionId sid w = Some s"
    and valid: "validSession s"
    and running: "status s = InProgress"
    and player: "findIndex (\<lambda>p. socketId p = sock) (players s) = Some i"
    and notgm: "Some sock \<noteq> gameMasterId s"
    and left: "attempts (players s ! i) < 3"
    and wrong: "Some (toLowerCase (trim guess)) \<noteq> currentAnswer s"
    and more: "\<not> allPlayersExhausted
        (s\<lparr>players := (players s)[i := (players s ! i)\<lparr>attempts := attempts (players s ! i) + 1\<rparr>]\<rparr>)"
  shows "let w' = handleSubmitGuess sock sid guess now w;
             p = players s ! i
         in store w' =
              replaceDoc (s\<lparr>players := (players s)[i := p\<lparr>attempts := attempts p + 1\<rparr>],
                            updatedAt := now\<rparr>) (store w)
          \<and> findBySessionId sid w' =
              Some (s\<lparr>players := (players s)[i := p\<lparr>attempts := attempts p + 1\<rparr>],
                      updatedAt := now\<rparr>)
          \<and> activeTimers w' = activeTimers w
          \<and> pendingTimers w' = pendingTimers w
          \<and> endedLog w' = endedLog w
          \<and> outbox w' = outbox w @
               [(ToSocket sock, GuessResult False (3 - (attempts p + 1))),
                (ToRoom sid, ChatSystem (MadeGuess (username p) (attempts p + 1)))] @
               (case gameMasterId s of
                  None \<Rightarrow> []
                | Some g \<Rightarrow>
                    if g \<noteq> [] then
                      [(ToRoom g, GameMasterNotification ''player_guessed''
                          (SubmittedGuess (username p) (attempts p + 1)))]
                    else [])"
proof -
  define p1 where "p1 = (players s ! i)\<lparr>attempts := attempts (players s ! i) + 1\<rparr>"
  define s1 where "s1 = s\<lparr>players := (players s)[i := p1]\<rparr>"
  from findIndex_Some [OF player] have i: "i < length (players s)" by simp
  have "validPlayer (players s ! i)" by (rule validSession_nth [OF valid i])
  then have "validPlayer p1" using left unfolding p1_def by (simp add: validPlayer_def)
  from validSession_player_upd [OF valid i this]
  have v1: "validSession s1" by (simp add: s1_def)
  have sid: "sessionId s = trim (toLowerCase sid)" by (rule findBySessionId_sessionId [OF found])
  have att: "\<not> 3 \<le> attempts (players s ! i)" using left by simp
  have ex: "\<not> allPlayersExhausted (s1\<lparr>updatedAt := now\<rparr>)"
    using more by (simp add: s1_def p1_def)
  show ?thesis
    using nonblank found running player notgm att wrong v1 ex sid
    unfolding s1_def p1_def
    by (simp add: handleSubmitGuess_def save_def Let_def findBySessionId_replace
        split: option.splits)
qed

theorem wrong_guess_frame_witness:
  "store (handleSubmitGuess ''p'' ''abc12'' ''London'' 500 roundStarted) =
     [roundSession\<lparr>players := (players roundSession)
         [1 := (players roundSession ! 1)\<lparr>attempts := 1\<rparr>], updatedAt := 500\<rparr>]
   \<and> outbox (handleSubmitGuess ''p'' ''abc12'' ''London'' 500 roundStarted) =
       [(ToSocket ''p'', GuessResult False 2),
        (ToRoom ''abc12'', ChatSystem (MadeGuess ''Bob'' 1)),
        (ToRoom ''g'', GameMasterNotification ''player_guessed'' (SubmittedGuess ''Bob'' 1))]"
proof -
  have london: "toLowerCase (trim ''London'') = ''london''" by code_simp
  have h1: "trim ''London'' \<noteq> []" using london by (auto simp: toLowerCase_def)
  have h4: "status roundSession = InProgress" by (simp add: roundSession_def)
  have h5: "findIndex (\<lambda>p. socketId p = ''p'') (players roundSession) = Some 1"
    by (simp add: roundSession_def)
  have h6: "Some ''p'' \<noteq> gameMasterId roundSession" by (simp add: roundSession_def)
  have h7: "attempts (players roundSession ! 1) < 3" by (simp add: roundSession_def)
  have h8: "Some (toLowerCase (trim ''London'')) \<noteq> currentAnswer roundSession"
    by (simp add: london roundSession_def)
  have h9: "\<not> allPlayersExhausted (roundSession\<lparr>players := (players roundSession)
      [1 := (players roundSession ! 1)\<lparr>attempts := attempts (players roundSession ! 1) + 1\<rparr>]\<rparr>)"
    by (simp add: allPlayersExhausted_def roundSession_def)
  have f: "username (players roundSession ! 1) = ''Bob''" "attempts (players roundSession ! 1) = 0"
    "gameMasterId roundSession = Some ''g''" "sessionId roundSession = ''abc12''"
    by (simp_all add: roundSession_def)
  from wrong_guess_frame [OF h1 roundStarted_session roundSession_valid h4 h5 h6 h7 h8 h9,
      where now = 500]
  show ?thesis
    unfolding Let_def using f by (simp add: roundStarted_def)
qed

end
